theory Spec2Isabelle
  imports Main "HOL-Library.Sublist"
begin

section \<open>Python string operations used by the agent\<close>

text \<open>
  A Python \<open>str\<close> is a sequence of code points. The model uses HOL's \<open>string\<close>, whose
  characters carry the code points 0 to 255; every operation below is Python's on that
  range. All string constants of the source are ASCII.
\<close>

definition py_isspace :: "char \<Rightarrow> bool" where
  \<comment> \<open>the code points below 256 that \<open>str.strip()\<close> removes: TAB to CR, FS to US and
      the space, NEL (0x85) and the no-break space (0xA0)\<close>
  "py_isspace c =
     (let n = (of_char c :: nat)
      in (9 \<le> n \<and> n \<le> 13) \<or> (28 \<le> n \<and> n \<le> 32) \<or> n = 133 \<or> n = 160)"

definition py_strip :: "string \<Rightarrow> string" where
  \<comment> \<open>\<open>s.strip()\<close>\<close>
  "py_strip s = rev (dropWhile py_isspace (rev (dropWhile py_isspace s)))"

definition py_lower_char :: "char \<Rightarrow> char" where
  \<comment> \<open>A to Z, and the Latin-1 capitals 0xC0 to 0xDE without the multiplication sign\<close>
  "py_lower_char c =
     (let n = (of_char c :: nat)
      in if (65 \<le> n \<and> n \<le> 90) \<or> (192 \<le> n \<and> n \<le> 222 \<and> n \<noteq> 215)
         then char_of (n + 32) else c)"

definition py_lower :: "string \<Rightarrow> string" where
  \<comment> \<open>\<open>s.lower()\<close>\<close>
  "py_lower s = map py_lower_char s"

fun py_in :: "string \<Rightarrow> string \<Rightarrow> bool" where
  \<comment> \<open>\<open>sub in s\<close>: \<open>sub\<close> occurs in \<open>s\<close> as a contiguous substring\<close>
  "py_in sub [] = (sub = [])"
| "py_in sub (c # cs) = (prefix sub (c # cs) \<or> py_in sub cs)"

function py_replace :: "string \<Rightarrow> string \<Rightarrow> string \<Rightarrow> string" where
  \<comment> \<open>\<open>s.replace(old, new)\<close>: every non-overlapping occurrence, scanning from the left;
      an empty \<open>old\<close> matches before every character and at the end\<close>
  "py_replace old new s =
     (if old = [] then new @ concat (map (\<lambda>c. c # new) s)
      else if s = [] then []
      else if prefix old s then new @ py_replace old new (drop (length old) s)
      else hd s # py_replace old new (tl s))"
  by pat_completeness auto
termination
  by (relation "measure (\<lambda>(old, new, s). length s)") auto

declare py_replace.simps [simp del]

fun py_split :: "char \<Rightarrow> string \<Rightarrow> string list" where
  \<comment> \<open>\<open>s.split(sep)\<close> for a separator of one character\<close>
  "py_split sep [] = [[]]"
| "py_split sep (c # cs) =
     (if c = sep then [] # py_split sep cs
      else (case py_split sep cs of
              [] \<Rightarrow> [[c]]
            | p # ps \<Rightarrow> (c # p) # ps))"

fun py_join :: "string \<Rightarrow> string list \<Rightarrow> string" where
  \<comment> \<open>\<open>sep.join(xs)\<close>\<close>
  "py_join sep [] = []"
| "py_join sep [x] = x"
| "py_join sep (x # y # ys) = x @ sep @ py_join sep (y # ys)"

subsection \<open>\<open>repr\<close> of a list of strings, as an f-string prints it\<close>

definition hex_digit :: "nat \<Rightarrow> char" where
  "hex_digit n = ''0123456789abcdef'' ! (n mod 16)"

definition py_isprintable :: "char \<Rightarrow> bool" where
  \<comment> \<open>below 256 the non-printable code points are the controls 0x00 to 0x1F and 0x7F to
      0x9F, the no-break space and the soft hyphen\<close>
  "py_isprintable c =
     (let n = (of_char c :: nat)
      in \<not> (n < 32 \<or> (127 \<le> n \<and> n \<le> 160) \<or> n = 173))"

definition repr_char :: "char \<Rightarrow> char \<Rightarrow> string" where
  "repr_char quote c =
     (if c = quote \<or> c = CHR 0x5C then [CHR 0x5C, c]
      else if c = CHR 0x09 then [CHR 0x5C, CHR ''t'']
      else if c = CHR 0x0A then [CHR 0x5C, CHR ''n'']
      else if c = CHR 0x0D then [CHR 0x5C, CHR ''r'']
      else if py_isprintable c then [c]
      else [CHR 0x5C, CHR ''x'', hex_digit (of_char c div 16), hex_digit (of_char c)])"

definition py_repr :: "string \<Rightarrow> string" where
  \<comment> \<open>\<open>repr(s)\<close>: double quotes only when \<open>s\<close> has a single quote and no double quote\<close>
  "py_repr s =
     (let quote = (if CHR 0x27 \<in> set s \<and> CHR 0x22 \<notin> set s then CHR 0x22 else CHR 0x27)
      in quote # concat (map (repr_char quote) s) @ [quote])"

definition py_str_list :: "string list \<Rightarrow> string" where
  \<comment> \<open>\<open>str(xs)\<close> of a list of strings\<close>
  "py_str_list xs = ''['' @ py_join '', '' (map py_repr xs) @ '']''"

section \<open>The world outside the agent\<close>

datatype error =
    ServiceError string  \<comment> \<open>an exception raised inside an external service\<close>
  | KeyError string
  | EOFError

datatype out_event =
    Print string   \<comment> \<open>\<open>print(s)\<close>: the text, then a line break\<close>
  | Prompt string  \<comment> \<open>the prompt that \<open>input\<close> writes\<close>

record chat_message =
  msg_name :: string
  msg_content :: string

record agent =
  agent_name :: string
  agent_system_message :: string
  agent_is_termination_msg :: "(string \<Rightarrow> bool) option"  \<comment> \<open>\<open>None\<close>: not given\<close>

record GroupChat =
  gc_agents :: "agent list"
  gc_max_round :: nat

datatype ext_call =
    Completion string string     \<comment> \<open>system instruction and human turn sent to the model\<close>
  | FileOpen string
  | ChatRun "string list" nat string  \<comment> \<open>agent names, round budget, opening message\<close>

datatype file_result = Contents string | FileNotFoundError | ReadFailure error

record world =
  stdout :: "out_event list"
  trace :: "ext_call list"

text \<open>
  The external services are parameters. Each one sees the calls made so far, so two calls
  with the same arguments may answer differently.
\<close>

record env =
  llm_langchain :: "ext_call list \<Rightarrow> string \<Rightarrow> string \<Rightarrow> error + string"
  open_read :: "ext_call list \<Rightarrow> string \<Rightarrow> file_result"
  initiate_chat :: "ext_call list \<Rightarrow> GroupChat \<Rightarrow> string \<Rightarrow> error + chat_message list"

definition print :: "string \<Rightarrow> world \<Rightarrow> world" where
  "print s w = w\<lparr>stdout := stdout w @ [Print s]\<rparr>"

definition chain_invoke :: "env \<Rightarrow> string \<Rightarrow> string \<Rightarrow> world \<Rightarrow> (error + string) \<times> world" where
  \<comment> \<open>\<open>(prompt | llm_langchain).invoke({"request": r}).content\<close> for a prompt made of one
      system message and the human message \<open>{request}\<close>\<close>
  "chain_invoke e sys r w =
     (llm_langchain e (trace w) sys r, w\<lparr>trace := trace w @ [Completion sys r]\<rparr>)"

section \<open>The state and the updates the nodes return\<close>

type_synonym finding = "(string \<times> string) list"

datatype BaseMessage = HumanMessage string

record ComplianceState =
  user_request :: string
  impacted_standards :: "string list"
  loaded_documents :: "(string \<times> string) list"
  audit_findings :: "finding list"
  final_report_content :: string
  messages :: "BaseMessage list"

text \<open>A node returns a dictionary holding some of the state's keys.\<close>

record StateUpdate =
  upd_user_request :: "string option"
  upd_impacted_standards :: "string list option"
  upd_loaded_documents :: "(string \<times> string) list option"
  upd_audit_findings :: "finding list option"
  upd_final_report_content :: "string option"
  upd_messages :: "BaseMessage list option"

definition no_update :: StateUpdate where
  "no_update = \<lparr>upd_user_request = None, upd_impacted_standards = None,
     upd_loaded_documents = None, upd_audit_findings = None,
     upd_final_report_content = None, upd_messages = None\<rparr>"

definition apply_update :: "ComplianceState \<Rightarrow> StateUpdate \<Rightarrow> ComplianceState" where
  \<comment> \<open>the graph's merge: a returned key replaces the field, but \<open>messages\<close>, annotated with
      \<open>operator.add\<close>, is extended\<close>
  "apply_update s u =
     \<lparr>user_request = (case upd_user_request u of None \<Rightarrow> user_request s | Some v \<Rightarrow> v),
      impacted_standards =
        (case upd_impacted_standards u of None \<Rightarrow> impacted_standards s | Some v \<Rightarrow> v),
      loaded_documents =
        (case upd_loaded_documents u of None \<Rightarrow> loaded_documents s | Some v \<Rightarrow> v),
      audit_findings = (case upd_audit_findings u of None \<Rightarrow> audit_findings s | Some v \<Rightarrow> v),
      final_report_content =
        (case upd_final_report_content u of None \<Rightarrow> final_report_content s | Some v \<Rightarrow> v),
      messages = (case upd_messages u of None \<Rightarrow> messages s | Some v \<Rightarrow> messages s @ v)\<rparr>"

section \<open>Stage 1: planning and data loading\<close>

definition planner_system :: string where
  \<open>planner_system = ''You are a Regulatory Affairs expert. Analyze the user's requested change and list the medical device standards that are most likely impacted and need re-auditing. Return ONLY a comma-separated list of standards (e.g., 'IEC 62304, ISO 14971').''\<close>

definition orchestrator_planner_node ::
  "env \<Rightarrow> ComplianceState \<Rightarrow> world \<Rightarrow> (error + StateUpdate) \<times> world" where
  "orchestrator_planner_node e state w =
     (let w1 = print ''\<newline>--- [Stage 1] Orchestrator: Planning Compliance Scope ---'' w
      in case chain_invoke e planner_system (user_request state) w1 of
           (Inl err, w2) \<Rightarrow> (Inl err, w2)
         | (Inr content, w2) \<Rightarrow>
             (let standards_list = map py_strip (py_split CHR '','' content);
                  w3 = print (''Impacted Standards identified: '' @ py_str_list standards_list) w2
              in (Inr (no_update\<lparr>upd_impacted_standards := Some standards_list\<rparr>), w3)))"

definition spec_file_path :: string where
  \<open>spec_file_path = ''d:'' @ [CHR 0x5C] @ ''AI_Engineer_105'' @ [CHR 0x5C] @ ''test_medical_spec.md''\<close>

definition srs_system :: string where
  \<open>srs_system = ''You are a technical writer. Generate a Software Requirements Specification (SRS) document based on the user's medical device software request. Include sections: Functional Requirements, Performance Requirements, Security Requirements, Interface Requirements, and Safety Requirements with IEC 62304 traceability.''\<close>

definition rmf_system :: string where
  \<open>rmf_system = ''You are a risk management specialist. Generate a Risk Management File (RMF) document based on the user's medical device software request following ISO 14971. Include a table with columns: ID, Hazard, Cause, Current Control, Risk Level. Identify potential hazards related to the proposed changes.''\<close>

definition fetch_software_requirements_spec ::
  "env \<Rightarrow> string \<Rightarrow> world \<Rightarrow> (error + string) \<times> world" where
  "fetch_software_requirements_spec e request w = chain_invoke e srs_system request w"

definition fetch_risk_management_file ::
  "env \<Rightarrow> string \<Rightarrow> world \<Rightarrow> (error + string) \<times> world" where
  "fetch_risk_management_file e request w = chain_invoke e rmf_system request w"

fun dict_set :: "string \<Rightarrow> string \<Rightarrow> (string \<times> string) list \<Rightarrow> (string \<times> string) list" where
  \<comment> \<open>\<open>d[k] = v\<close> on a dictionary kept in insertion order\<close>
  "dict_set k v [] = [(k, v)]"
| "dict_set k v (p # ps) = (if fst p = k then (k, v) # ps else p # dict_set k v ps)"

definition read_technical_input :: "env \<Rightarrow> ComplianceState \<Rightarrow> world \<Rightarrow> (error + string) \<times> world" where
  \<comment> \<open>the \<open>try\<close> block of \<open>data_loading_node\<close>: only FileNotFoundError is caught\<close>
  "read_technical_input e state w =
     (let w1 = w\<lparr>trace := trace w @ [FileOpen spec_file_path]\<rparr>
      in case open_read e (trace w) spec_file_path of
           Contents text \<Rightarrow>
             (Inr text, print (''Loaded technical specification from '' @ spec_file_path) w1)
         | FileNotFoundError \<Rightarrow>
             (Inr (user_request state),
              print (''Warning: '' @ spec_file_path @ '' not found, using user request only'') w1)
         | ReadFailure err \<Rightarrow> (Inl err, w1))"

definition combined_input_of :: "string \<Rightarrow> string \<Rightarrow> string" where
  \<open>combined_input_of technical_input request =
     ''Technical Specification:\<newline>'' @ technical_input @ ''\<newline>\<newline>User Request:\<newline>'' @ request\<close>

definition load_srs ::
  "env \<Rightarrow> string list \<Rightarrow> string \<Rightarrow> (string \<times> string) list \<Rightarrow> world
     \<Rightarrow> (error + (string \<times> string) list) \<times> world" where
  "load_srs e standards combined_input docs w =
     (if list_ex (py_in ''62304'') standards then
        (case fetch_software_requirements_spec e combined_input
                (print ''Fetching Software Requirements Spec due to IEC 62304 impact...'' w) of
           (Inl err, w') \<Rightarrow> (Inl err, w')
         | (Inr text, w') \<Rightarrow> (Inr (dict_set ''SRS'' text docs), w'))
      else (Inr docs, w))"

definition load_rmf ::
  "env \<Rightarrow> string list \<Rightarrow> string \<Rightarrow> (string \<times> string) list \<Rightarrow> world
     \<Rightarrow> (error + (string \<times> string) list) \<times> world" where
  "load_rmf e standards combined_input docs w =
     (if list_ex (py_in ''14971'') standards then
        (case fetch_risk_management_file e combined_input
                (print ''Fetching Risk Management File due to ISO 14971 impact...'' w) of
           (Inl err, w') \<Rightarrow> (Inl err, w')
         | (Inr text, w') \<Rightarrow> (Inr (dict_set ''RMF'' text docs), w'))
      else (Inr docs, w))"

definition load_qms ::
  "string list \<Rightarrow> (string \<times> string) list \<Rightarrow> world \<Rightarrow> (string \<times> string) list \<times> world" where
  "load_qms standards docs w =
     (if list_ex (py_in ''13485'') standards then
        (dict_set ''QMS'' ''QMS documentation placeholder'' docs,
         print ''Fetching Quality Management System documentation due to ISO 13485 impact...'' w)
      else (docs, w))"

definition data_loading_node ::
  "env \<Rightarrow> ComplianceState \<Rightarrow> world \<Rightarrow> (error + StateUpdate) \<times> world" where
  "data_loading_node e state w =
     (let w0 = print ''\<newline>--- [Stage 1] Data Loader: Fetching Technical Documentation ---'' w;
          standards = impacted_standards state
      in case read_technical_input e state w0 of
           (Inl err, w1) \<Rightarrow> (Inl err, w1)
         | (Inr technical_input, w1) \<Rightarrow>
             (let combined_input = combined_input_of technical_input (user_request state)
              in case load_srs e standards combined_input [] w1 of
                   (Inl err, w2) \<Rightarrow> (Inl err, w2)
                 | (Inr docs1, w2) \<Rightarrow>
                     (case load_rmf e standards combined_input docs1 w2 of
                        (Inl err, w3) \<Rightarrow> (Inl err, w3)
                      | (Inr docs2, w3) \<Rightarrow>
                          (case load_qms standards docs2 w3 of
                             (docs, w4) \<Rightarrow>
                               (Inr (no_update\<lparr>upd_loaded_documents := Some docs\<rparr>), w4)))))"

section \<open>Stage 2: the audit conversation\<close>

definition user_proxy :: agent where
  "user_proxy =
     \<lparr>agent_name = ''Compliance_Manager'',
      agent_system_message = ''A human compliance manager overseeing the audit process. Terminate chat when the audit is complete and findings are summarized.'',
      agent_is_termination_msg = Some (\<lambda>content. py_in ''AUDIT_COMPLETE'' content)\<rparr>"

definition software_auditor :: agent where
  "software_auditor =
     \<lparr>agent_name = ''IEC62304_Auditor'',
      agent_system_message = ''You are an expert IEC 62304 Medical Device Software auditor.\<newline>        Your job is to review provided documentation against standard clauses 5-9.\<newline>        Identify gaps where documents do not meet the standard.\<newline>        Ensure traceability exists between requirements and risks.\<newline>        If satisfied, state COMPLIANT. If not, explicitly state NON-COMPLIANT and the reason.\<newline>        '',
      agent_is_termination_msg = None\<rparr>"

definition risk_auditor :: agent where
  "risk_auditor =
     \<lparr>agent_name = ''ISO14971_Auditor'',
      agent_system_message = ''You are an expert ISO 14971 Risk Management auditor.\<newline>        Review the provided Risk Management File and ensure that new features identified in documentation have corresponding risk assessments.\<newline>        Ensure mitigations are verified.\<newline>        '',
      agent_is_termination_msg = None\<rparr>"

definition qms_auditor :: agent where
  "qms_auditor =
     \<lparr>agent_name = ''ISO13485_Auditor'',
      agent_system_message = ''You are an expert ISO 13485 Quality Management System auditor.\<newline>        Review documentation for compliance with QMS requirements in clause 4-8.\<newline>        Verify that proper procedures are followed for medical device development.\<newline>        If satisfied, state COMPLIANT. If not, explicitly state NON-COMPLIANT and the reason.\<newline>        '',
      agent_is_termination_msg = None\<rparr>"

definition groupchat :: GroupChat where
  "groupchat =
     \<lparr>gc_agents = [user_proxy, software_auditor, risk_auditor, qms_auditor], gc_max_round = 4\<rparr>"

definition audit_prompt :: "string \<Rightarrow> string \<Rightarrow> string" where
  \<open>audit_prompt standards_to_audit loaded_docs_text =
     ''\<newline>    Please conduct a compliance audit for only the following standards: '' @ standards_to_audit @ ''.\<newline>    \<newline>    Here is the documentation to review:\<newline>    '' @ loaded_docs_text @ ''\<newline>    \<newline>    Auditors, be concise. Review your respective areas and collaborate if software changes affect risk.\<newline>    Summarize findings as "COMPLIANT" or "NON-COMPLIANT" for key clauses.\<newline>    End with "AUDIT_COMPLETE".\<newline>    ''\<close>

definition final_summary_msg :: "chat_message list \<Rightarrow> string" where
  \<comment> \<open>\<open>next((msg['content'] for msg in reversed(chat_history) if "AUDIT_COMPLETE" in
      msg['content']), "No summary found.")\<close>\<close>
  "final_summary_msg chat_history =
     (case find (\<lambda>msg. py_in ''AUDIT_COMPLETE'' (msg_content msg)) (rev chat_history) of
        Some msg \<Rightarrow> msg_content msg
      | None \<Rightarrow> ''No summary found.'')"

definition finding_of :: "string \<Rightarrow> finding" where
  "finding_of summary =
     [(''stage'', ''Stage 2 Audit Loop''),
      (''details'', py_strip (py_replace ''AUDIT_COMPLETE'' [] summary))]"

definition autogen_auditor_node ::
  "env \<Rightarrow> ComplianceState \<Rightarrow> world \<Rightarrow> (error + StateUpdate) \<times> world" where
  \<open>autogen_auditor_node e state w =
     (let w1 = print ''\<newline>--- [Stage 2] AutoGen: Iterative Audit & QA Loop ---'' w;
          loaded_docs_text =
            py_join ''\<newline>\<newline>''
              (map (\<lambda>(k, v). ''--- Document: '' @ k @ '' ---\<newline>'' @ v) (loaded_documents state));
          standards_to_audit = py_join '', '' (impacted_standards state);
          message = audit_prompt standards_to_audit loaded_docs_text;
          w2 = w1\<lparr>trace := trace w1 @
                 [ChatRun (map agent_name (gc_agents groupchat)) (gc_max_round groupchat) message]\<rparr>
      in case initiate_chat e (trace w1) groupchat message of
           Inl err \<Rightarrow> (Inl err, w2)
         | Inr chat_history \<Rightarrow>
             (let summary = final_summary_msg chat_history
              in (Inr (no_update\<lparr>upd_audit_findings := Some [finding_of summary],
                                  upd_messages := Some [HumanMessage summary]\<rparr>), w2)))\<close>

section \<open>Stage 3: the report\<close>

definition details_of :: "finding \<Rightarrow> error + string" where
  \<comment> \<open>\<open>f['details']\<close>\<close>
  "details_of f = (case map_of f ''details'' of None \<Rightarrow> Inl (KeyError ''details'') | Some d \<Rightarrow> Inr d)"

fun finding_lines :: "finding list \<Rightarrow> error + string list" where
  \<comment> \<open>\<open>[f"- {f['details']}" for f in findings]\<close>\<close>
  "finding_lines [] = Inr []"
| "finding_lines (f # fs) =
     (case details_of f of
        Inl err \<Rightarrow> Inl err
      | Inr d \<Rightarrow> (case finding_lines fs of Inl err \<Rightarrow> Inl err | Inr ls \<Rightarrow> Inr ((''- '' @ d) # ls)))"

definition report_template :: "string \<Rightarrow> string list \<Rightarrow> string \<Rightarrow> string" where
  \<open>report_template request standards findings_text =
     ''\<newline># Medical Device Compliance Audit Report\<newline>\<newline>**Date:** 2026-01-27\<newline>**Trigger:** User Request - "'' @ request @ ''"\<newline>**Scope:** '' @ py_join '', '' standards @ ''\<newline>\<newline>## Executive Summary\<newline>An audit was conducted on the updated technical documentation. Below are the findings from the automated specialist agents.\<newline>\<newline>## Audit Findings Summary\<newline>\<newline>'' @ findings_text @ ''\<newline>\<newline>## Next Actions\<newline>Review NON-COMPLIANT items and initiate CAPA (Corrective and Preventive Action) process if necessary. Update documentation before submission.\<newline>    ''\<close>

definition report_compiler_node ::
  "env \<Rightarrow> ComplianceState \<Rightarrow> world \<Rightarrow> (error + StateUpdate) \<times> world" where
  "report_compiler_node e state w =
     (let w1 = print ''\<newline>--- [Stage 3] Report Compiler: Generating Final Compliance Report ---'' w
      in case finding_lines (audit_findings state) of
           Inl err \<Rightarrow> (Inl err, w1)
         | Inr ls \<Rightarrow>
             (let findings_text = py_join ''\<newline>'' ls;
                  report = report_template (user_request state) (impacted_standards state)
                             findings_text;
                  w2 = print ''Report generated successfully.'' w1
              in (Inr (no_update\<lparr>upd_final_report_content := Some report\<rparr>), w2)))"

section \<open>The workflow graph\<close>

datatype node = Planner | Data_loader | Autogen_auditor | Compiler

fun node_action ::
  "node \<Rightarrow> env \<Rightarrow> ComplianceState \<Rightarrow> world \<Rightarrow> (error + StateUpdate) \<times> world" where
  \<comment> \<open>\<open>workflow.add_node\<close>\<close>
  "node_action Planner = orchestrator_planner_node"
| "node_action Data_loader = data_loading_node"
| "node_action Autogen_auditor = autogen_auditor_node"
| "node_action Compiler = report_compiler_node"

definition entry_point :: node where
  "entry_point = Planner"

fun edge :: "node \<Rightarrow> node option" where
  \<comment> \<open>\<open>workflow.add_edge\<close>; \<open>None\<close> is END\<close>
  "edge Planner = Some Data_loader"
| "edge Data_loader = Some Autogen_auditor"
| "edge Autogen_auditor = Some Compiler"
| "edge Compiler = None"

fun remaining :: "node \<Rightarrow> nat" where
  \<comment> \<open>the number of edges from a node to END\<close>
  "remaining Planner = 3"
| "remaining Data_loader = 2"
| "remaining Autogen_auditor = 1"
| "remaining Compiler = 0"

function run_from ::
  "env \<Rightarrow> node \<Rightarrow> ComplianceState \<Rightarrow> world \<Rightarrow> (error + ComplianceState) \<times> world" where
  \<comment> \<open>the compiled graph from one node on: run the node, merge what it returns, follow
      its edge; an exception of a node ends the run\<close>
  "run_from e n state w =
     (case node_action n e state w of
        (Inl err, w') \<Rightarrow> (Inl err, w')
      | (Inr u, w') \<Rightarrow>
          (case edge n of
             None \<Rightarrow> (Inr (apply_update state u), w')
           | Some n' \<Rightarrow> run_from e n' (apply_update state u) w'))"
  by pat_completeness auto
termination
  by (relation "measure (\<lambda>(e, n, state, w). remaining n)") (auto elim: edge.elims)

declare run_from.simps [simp del]

definition app_invoke ::
  "env \<Rightarrow> ComplianceState \<Rightarrow> world \<Rightarrow> (error + ComplianceState) \<times> world" where
  \<comment> \<open>\<open>app.invoke(initial_state)\<close>\<close>
  "app_invoke e state w = run_from e entry_point state w"

section \<open>The command line\<close>

datatype exit_status =
    Finished         \<comment> \<open>the script ran to its end\<close>
  | Uncaught error   \<comment> \<open>an exception left the script\<close>

definition initial_state :: "string \<Rightarrow> ComplianceState" where
  "initial_state user_input =
     \<lparr>user_request = user_input, impacted_standards = [], loaded_documents = [],
      audit_findings = [], final_report_content = [], messages = []\<rparr>"

definition prompt_text :: string where
  "prompt_text = ''Enter your compliance request: ''"

fun main_loop :: "env \<Rightarrow> string list \<Rightarrow> world \<Rightarrow> exit_status \<times> world" where
  \<comment> \<open>\<open>while True\<close> over the lines that standard input still holds; \<open>input\<close> raises
      EOFError when there is none\<close>
  "main_loop e [] w = (Uncaught EOFError, w\<lparr>stdout := stdout w @ [Prompt prompt_text]\<rparr>)"
| "main_loop e (line # rest) w =
     (let w1 = w\<lparr>stdout := stdout w @ [Prompt prompt_text]\<rparr>;
          user_input = py_strip line
      in if py_lower user_input \<in> set [''quit'', ''exit'']
         then (Finished, print ''Exiting Compliance System.'' w1)
         else if user_input = [] then main_loop e rest w1
         else (case app_invoke e (initial_state user_input)
                      (print (''\<newline>Starting Compliance System with input: '' @ [CHR 0x27]
                                @ user_input @ [CHR 0x27] @ ''\<newline>'') w1) of
                 (Inl err, w2) \<Rightarrow> (Uncaught err, w2)
               | (Inr final_state, w2) \<Rightarrow>
                   main_loop e rest
                     (print ''========================================================\<newline>''
                        (print (final_report_content final_state)
                           (print ''\<newline>\<newline>================ GENERATED FINAL REPORT ================\<newline>''
                              w2)))))"

definition main :: "env \<Rightarrow> string list \<Rightarrow> world \<Rightarrow> exit_status \<times> world" where
  \<open>main e lines w =
     main_loop e lines
       (print (''Type 'quit' or 'exit' to stop\<newline>'') (print ''Medical Device Compliance Agent'' w))\<close>

section \<open>The conversation scheduler, as the specification describes it\<close>

text \<open>
  Modelled from the spec: the multi-agent scheduler behind \<open>initiate_chat\<close> (the group
  chat of the conversation library), which is not part of the source. The specification
  gives its contract: given a role list, a shared initial message and a round budget, it
  returns an ordered transcript of turns, taken round-robin among all participants, and
  stops at budget exhaustion or when the termination predicate holds of a turn's text;
  each turn sees the initial message and all prior turns; a failure during any turn is
  fatal. What a participant says is the parameter \<open>reply\<close>.
\<close>

fun group_chat_turns ::
  "(agent \<Rightarrow> chat_message list \<Rightarrow> error + string) \<Rightarrow> (string \<Rightarrow> bool) \<Rightarrow> agent list \<Rightarrow> nat
     \<Rightarrow> chat_message list \<Rightarrow> error + chat_message list" where
  \<comment> \<open>Modelled from the spec: the scheduler's loop of turns (not in the source). The
      budget counts the turns still allowed; the speaker of a turn is the next participant
      in round-robin order\<close>
  "group_chat_turns reply stop agents 0 transcript = Inr transcript"
| "group_chat_turns reply stop agents (Suc budget) transcript =
     (if agents = [] then Inr transcript
      else (let speaker = agents ! (length transcript mod length agents)
            in case reply speaker transcript of
                 Inl err \<Rightarrow> Inl err
               | Inr text \<Rightarrow>
                   (let transcript' =
                          transcript @ [\<lparr>msg_name = agent_name speaker, msg_content = text\<rparr>]
                    in if stop text then Inr transcript'
                       else group_chat_turns reply stop agents budget transcript')))"

definition is_completion_signal :: "GroupChat \<Rightarrow> string \<Rightarrow> bool" where
  \<comment> \<open>the predicate the caller supplied with its participants\<close>
  "is_completion_signal gc text =
     list_ex (\<lambda>a. case agent_is_termination_msg a of None \<Rightarrow> False | Some p \<Rightarrow> p text)
       (gc_agents gc)"

definition spec_scheduler ::
  "(agent \<Rightarrow> string \<Rightarrow> chat_message list \<Rightarrow> error + string)
     \<Rightarrow> ext_call list \<Rightarrow> GroupChat \<Rightarrow> string \<Rightarrow> error + chat_message list" where
  \<comment> \<open>Modelled from the spec: the service behind \<open>initiate_chat\<close> (not in the source),
      started on an empty transcript with the caller's participants, budget and predicate\<close>
  "spec_scheduler reply history gc message =
     group_chat_turns (\<lambda>a. reply a message) (is_completion_signal gc) (gc_agents gc)
       (gc_max_round gc) []"

section \<open>Notions used to state the properties\<close>

definition docs_for :: "bool \<Rightarrow> bool \<Rightarrow> bool \<Rightarrow> string \<Rightarrow> string \<Rightarrow> (string \<times> string) list" where
  \<comment> \<open>the dictionary the loader builds: which entries it has, in insertion order\<close>
  "docs_for a b c srs rmf =
     (if a then [(''SRS'', srs)] else []) @ (if b then [(''RMF'', rmf)] else [])
     @ (if c then [(''QMS'', ''QMS documentation placeholder'')] else [])"

datatype field =
    Field_user_request | Field_impacted_standards | Field_loaded_documents
  | Field_audit_findings | Field_final_report_content | Field_messages

definition keys_of :: "StateUpdate \<Rightarrow> field list" where
  \<comment> \<open>the keys of the dictionary a node returns\<close>
  "keys_of u =
     (if upd_user_request u = None then [] else [Field_user_request])
     @ (if upd_impacted_standards u = None then [] else [Field_impacted_standards])
     @ (if upd_loaded_documents u = None then [] else [Field_loaded_documents])
     @ (if upd_audit_findings u = None then [] else [Field_audit_findings])
     @ (if upd_final_report_content u = None then [] else [Field_final_report_content])
     @ (if upd_messages u = None then [] else [Field_messages])"

fun agree_on :: "field \<Rightarrow> ComplianceState \<Rightarrow> ComplianceState \<Rightarrow> bool" where
  \<comment> \<open>two states hold the same value in a field\<close>
  "agree_on Field_user_request s t = (user_request s = user_request t)"
| "agree_on Field_impacted_standards s t = (impacted_standards s = impacted_standards t)"
| "agree_on Field_loaded_documents s t = (loaded_documents s = loaded_documents t)"
| "agree_on Field_audit_findings s t = (audit_findings s = audit_findings t)"
| "agree_on Field_final_report_content s t = (final_report_content s = final_report_content t)"
| "agree_on Field_messages s t = (messages s = messages t)"

fun spec_write_set :: "node \<Rightarrow> field list" where
  \<comment> \<open>the write set the specification gives each stage (its words, not the source's)\<close>
  "spec_write_set Planner = [Field_impacted_standards]"
| "spec_write_set Data_loader = [Field_loaded_documents]"
| "spec_write_set Autogen_auditor = [Field_audit_findings, Field_messages]"
| "spec_write_set Compiler = [Field_final_report_content]"

definition audit_message :: "ComplianceState \<Rightarrow> string" where
  \<comment> \<open>the opening message of the audit conversation for a state\<close>
  \<open>audit_message state =
     audit_prompt (py_join '', '' (impacted_standards state))
       (py_join ''\<newline>\<newline>''
          (map (\<lambda>(k, v). ''--- Document: '' @ k @ '' ---\<newline>'' @ v) (loaded_documents state)))\<close>

definition update_from :: "chat_message list \<Rightarrow> StateUpdate" where
  \<comment> \<open>what the coordinator returns for a transcript\<close>
  "update_from transcript =
     no_update\<lparr>upd_audit_findings := Some [finding_of (final_summary_msg transcript)],
               upd_messages := Some [HumanMessage (final_summary_msg transcript)]\<rparr>"

section \<open>Concrete inputs\<close>

definition w0 :: world where
  "w0 = \<lparr>stdout = [], trace = []\<rparr>"

definition two_summaries :: "chat_message list" where
  "two_summaries =
     [\<lparr>msg_name = ''Compliance_Manager'', msg_content = ''Please audit.''\<rparr>,
      \<lparr>msg_name = ''IEC62304_Auditor'', msg_content = ''clause 5 COMPLIANT AUDIT_COMPLETE''\<rparr>,
      \<lparr>msg_name = ''ISO14971_Auditor'', msg_content = ''risk file reviewed''\<rparr>,
      \<lparr>msg_name = ''ISO13485_Auditor'', msg_content = '' AUDIT_COMPLETE clause 7 NON-COMPLIANT ''\<rparr>]"

definition no_summary :: "chat_message list" where
  "no_summary =
     [\<lparr>msg_name = ''Compliance_Manager'', msg_content = ''Please audit.''\<rparr>,
      \<lparr>msg_name = ''IEC62304_Auditor'', msg_content = ''clause 5 COMPLIANT''\<rparr>,
      \<lparr>msg_name = ''ISO14971_Auditor'', msg_content = ''risk file reviewed''\<rparr>,
      \<lparr>msg_name = ''ISO13485_Auditor'', msg_content = ''clause 7 NON-COMPLIANT''\<rparr>]"

definition sample_env :: "chat_message list \<Rightarrow> env" where
  "sample_env chat =
     \<lparr>llm_langchain = (\<lambda>history sys request. Inr ''IEC 62304, ISO 14971''),
      open_read = (\<lambda>history path. FileNotFoundError),
      initiate_chat = (\<lambda>history gc message. Inr chat)\<rparr>"

definition all_three :: ComplianceState where
  "all_three = (initial_state ''Add Bluetooth module'')
     \<lparr>impacted_standards := [''IEC 62304'', ''ISO 14971'', ''ISO 13485'']\<rparr>"

definition software_only :: ComplianceState where
  "software_only = (initial_state ''Add Bluetooth module'')\<lparr>impacted_standards := [''IEC 62304'']\<rparr>"

definition sample_report_state :: ComplianceState where
  "sample_report_state =
     \<lparr>user_request = ''Add Bluetooth module'', impacted_standards = [''IEC 62304''],
      loaded_documents = [], audit_findings = [[(''details'', ''COMPLIANT'')]],
      final_report_content = [], messages = []\<rparr>"

definition other_report_state :: ComplianceState where
  "other_report_state =
     \<lparr>user_request = ''Add Bluetooth module'', impacted_standards = [''IEC 62304''],
      loaded_documents = [(''SRS'', ''requirements'')],
      audit_findings = [[(''details'', ''COMPLIANT'')]],
      final_report_content = ''an earlier report'', messages = [HumanMessage ''COMPLIANT'']\<rparr>"

definition busy_world :: world where
  "busy_world = \<lparr>stdout = [Print ''earlier output''], trace = [FileOpen ''somewhere'']\<rparr>"

definition terse_reply :: "agent \<Rightarrow> string \<Rightarrow> chat_message list \<Rightarrow> error + string" where
  "terse_reply a message transcript = Inr ''COMPLIANT''"

definition scheduled_env :: env where
  "scheduled_env =
     \<lparr>llm_langchain = (\<lambda>history sys request. Inr ''IEC 62304, ISO 14971''),
      open_read = (\<lambda>history path. FileNotFoundError),
      initiate_chat = spec_scheduler terse_reply\<rparr>"

section \<open>Facts about the string operations\<close>

lemma py_in_iff: "py_in sub s \<longleftrightarrow> (\<exists>a b. s = a @ sub @ b)"
proof (induction s)
  case Nil
  then show ?case by auto
next
  case (Cons c cs)
  show ?case
  proof
    assume "py_in sub (c # cs)"
    then consider "prefix sub (c # cs)" | "py_in sub cs" by auto
    then show "\<exists>a b. c # cs = a @ sub @ b"
    proof cases
      case 1
      then obtain b where "c # cs = sub @ b" by (auto simp: prefix_def)
      then have "c # cs = [] @ sub @ b" by simp
      then show ?thesis by blast
    next
      case 2
      with Cons.IH obtain a b where "cs = a @ sub @ b" by blast
      then have "c # cs = (c # a) @ sub @ b" by simp
      then show ?thesis by blast
    qed
  next
    assume "\<exists>a b. c # cs = a @ sub @ b"
    then obtain a b where ab: "c # cs = a @ sub @ b" by blast
    show "py_in sub (c # cs)"
    proof (cases a)
      case Nil
      with ab have "prefix sub (c # cs)" by (simp add: prefix_def)
      then show ?thesis by simp
    next
      case (Cons x a')
      with ab have "cs = a' @ sub @ b" by simp
      with Cons.IH have "py_in sub cs" by blast
      then show ?thesis by simp
    qed
  qed
qed

lemma py_strip_trimmed:
  "py_strip s = [] \<or> (\<not> py_isspace (hd (py_strip s)) \<and> \<not> py_isspace (last (py_strip s)))"
proof (cases "py_strip s = []")
  case True
  then show ?thesis by simp
next
  case False
  let ?t = "dropWhile py_isspace s"
  let ?r = "dropWhile py_isspace (rev ?t)"
  from False have r: "?r \<noteq> []" by (simp add: py_strip_def)
  then have hr: "\<not> py_isspace (hd ?r)" by (rule hd_dropWhile)
  have lst: "last (py_strip s) = hd ?r" using r by (simp add: py_strip_def last_rev)
  have t: "?t \<noteq> []"
  proof
    assume "?t = []"
    with r show False by (metis dropWhile.simps(1) rev.simps(1))
  qed
  then have ht: "\<not> py_isspace (hd ?t)" by (rule hd_dropWhile)
  have "last ?r = last (rev ?t)"
  proof -
    have "rev ?t = takeWhile py_isspace (rev ?t) @ ?r" by simp
    then show ?thesis using r by (metis last_appendR)
  qed
  then have "hd (py_strip s) = hd ?t" using r t by (simp add: py_strip_def hd_rev last_rev)
  with ht hr lst show ?thesis by simp
qed

lemma find_last:
  assumes "\<exists>m \<in> set xs. P m"
  shows "\<exists>earlier m later. xs = earlier @ m # later \<and> P m \<and> (\<forall>x \<in> set later. \<not> P x)
           \<and> find P (rev xs) = Some m"
proof -
  from assms have "find P (rev xs) \<noteq> None" by (auto simp: find_None_iff)
  then obtain m where m: "find P (rev xs) = Some m" by blast
  then obtain i where i: "i < length (rev xs)" "P (rev xs ! i)" "m = rev xs ! i"
    "\<forall>j<i. \<not> P (rev xs ! j)" by (auto simp: find_Some_iff)
  let ?k = "length xs - Suc i"
  from i have k: "?k < length xs" by simp
  have mk: "m = xs ! ?k" using i by (simp add: rev_nth)
  have split: "xs = take ?k xs @ m # drop (Suc ?k) xs" using k mk by (simp add: id_take_nth_drop)
  have later: "\<forall>x \<in> set (drop (Suc ?k) xs). \<not> P x"
  proof
    fix x assume "x \<in> set (drop (Suc ?k) xs)"
    then obtain n where n: "n < length (drop (Suc ?k) xs)" "x = drop (Suc ?k) xs ! n"
      by (auto simp: in_set_conv_nth)
    then have x: "x = xs ! (Suc ?k + n)" and bound: "Suc ?k + n < length xs" by auto
    let ?j = "length xs - Suc (Suc ?k + n)"
    have "?j < i" using bound i(1) by simp
    with i(4) have "\<not> P (rev xs ! ?j)" by blast
    moreover have "rev xs ! ?j = xs ! (Suc ?k + n)" using bound by (simp add: rev_nth)
    ultimately show "\<not> P x" using x by simp
  qed
  from split later i(2,3) m show ?thesis by blast
qed

lemma fallback_details: "py_strip (py_replace ''AUDIT_COMPLETE'' [] ''No summary found.'') = ''No summary found.''"
  by (simp add: py_replace.simps py_strip_def py_isspace_def)

section \<open>The audit coordinator's summary\<close>

lemma auditor_result:
  assumes "initiate_chat e (trace w) groupchat
             (audit_prompt (py_join '', '' (impacted_standards state))
                (py_join ''\<newline>\<newline>''
                   (map (\<lambda>(k, v). ''--- Document: '' @ k @ '' ---\<newline>'' @ v) (loaded_documents state))))
           = Inr chat_history"
  shows "fst (autogen_auditor_node e state w) =
           Inr (no_update\<lparr>upd_audit_findings := Some [finding_of (final_summary_msg chat_history)],
                          upd_messages := Some [HumanMessage (final_summary_msg chat_history)]\<rparr>)"
  using assms by (simp add: autogen_auditor_node_def Let_def print_def)

text \<open>
  C1: when some message of the transcript contains the sentinel AUDIT_COMPLETE, the finding
  the coordinator returns holds the text of the last such message, whoever said it, with
  the sentinel removed and the surrounding whitespace trimmed; the transcript splits into
  the earlier messages, that message, and later messages that do not contain the sentinel.
\<close>

theorem audit_summary_is_latest_sentinel_message:
  assumes chat: "\<And>history message. initiate_chat e history groupchat message = Inr chat_history"
    and some: "\<exists>m \<in> set chat_history. py_in ''AUDIT_COMPLETE'' (msg_content m)"
  shows "\<exists>earlier m later.
           chat_history = earlier @ m # later
           \<and> py_in ''AUDIT_COMPLETE'' (msg_content m)
           \<and> (\<forall>x \<in> set later. \<not> py_in ''AUDIT_COMPLETE'' (msg_content x))
           \<and> fst (autogen_auditor_node e state w) =
               Inr (no_update
                 \<lparr>upd_audit_findings :=
                    Some [[(''stage'', ''Stage 2 Audit Loop''),
                           (''details'', py_strip (py_replace ''AUDIT_COMPLETE'' [] (msg_content m)))]],
                  upd_messages := Some [HumanMessage (msg_content m)]\<rparr>)
           \<and> (py_strip (py_replace ''AUDIT_COMPLETE'' [] (msg_content m)) = []
                \<or> (\<not> py_isspace (hd (py_strip (py_replace ''AUDIT_COMPLETE'' [] (msg_content m))))
                    \<and> \<not> py_isspace (last (py_strip (py_replace ''AUDIT_COMPLETE'' [] (msg_content m))))))"
proof -
  let ?P = "\<lambda>msg. py_in ''AUDIT_COMPLETE'' (msg_content msg)"
  from find_last [of chat_history ?P] some
  obtain earlier m later where parts: "chat_history = earlier @ m # later" "?P m"
    "\<forall>x \<in> set later. \<not> ?P x" "find ?P (rev chat_history) = Some m"
    by blast
  from parts(4) have summary: "final_summary_msg chat_history = msg_content m"
    by (simp add: final_summary_msg_def)
  have "fst (autogen_auditor_node e state w) =
          Inr (no_update\<lparr>upd_audit_findings := Some [finding_of (msg_content m)],
                         upd_messages := Some [HumanMessage (msg_content m)]\<rparr>)"
    using auditor_result [OF chat] summary by simp
  then have node: "fst (autogen_auditor_node e state w) =
      Inr (no_update
        \<lparr>upd_audit_findings :=
           Some [[(''stage'', ''Stage 2 Audit Loop''),
                  (''details'', py_strip (py_replace ''AUDIT_COMPLETE'' [] (msg_content m)))]],
         upd_messages := Some [HumanMessage (msg_content m)]\<rparr>)"
    by (simp add: finding_of_def)
  from parts(1,2,3) node py_strip_trimmed show ?thesis by blast
qed

lemma sentinel_replace_late:
  "py_strip (py_replace ''AUDIT_COMPLETE'' [] '' AUDIT_COMPLETE clause 7 NON-COMPLIANT '') = ''clause 7 NON-COMPLIANT''"
  by (simp add: py_replace.simps py_strip_def py_isspace_def)

theorem audit_summary_is_latest_sentinel_message_witness:
  "(\<exists>m \<in> set two_summaries. py_in ''AUDIT_COMPLETE'' (msg_content m))
   \<and> fst (autogen_auditor_node (sample_env two_summaries) (initial_state ''Add Bluetooth module'') w0) =
       Inr (no_update
         \<lparr>upd_audit_findings :=
            Some [[(''stage'', ''Stage 2 Audit Loop''), (''details'', ''clause 7 NON-COMPLIANT'')]],
          upd_messages := Some [HumanMessage '' AUDIT_COMPLETE clause 7 NON-COMPLIANT '']\<rparr>)"
proof -
  have chat: "\<And>history message.
      initiate_chat (sample_env two_summaries) history groupchat message = Inr two_summaries"
    by (simp add: sample_env_def)
  have some: "\<exists>m \<in> set two_summaries. py_in ''AUDIT_COMPLETE'' (msg_content m)"
    by (simp add: two_summaries_def)
  from audit_summary_is_latest_sentinel_message
         [of "sample_env two_summaries" two_summaries "initial_state ''Add Bluetooth module''" w0,
          OF chat some]
  obtain earlier m later where parts: "two_summaries = earlier @ m # later"
    "py_in ''AUDIT_COMPLETE'' (msg_content m)"
    "\<forall>x \<in> set later. \<not> py_in ''AUDIT_COMPLETE'' (msg_content x)"
    and node: "fst (autogen_auditor_node (sample_env two_summaries)
                  (initial_state ''Add Bluetooth module'') w0) =
       Inr (no_update
         \<lparr>upd_audit_findings :=
            Some [[(''stage'', ''Stage 2 Audit Loop''),
                   (''details'', py_strip (py_replace ''AUDIT_COMPLETE'' [] (msg_content m)))]],
          upd_messages := Some [HumanMessage (msg_content m)]\<rparr>)"
    by blast
  have "m = last two_summaries"
  proof (cases later rule: rev_cases)
    case Nil
    with parts(1) show ?thesis by (metis last_snoc)
  next
    case (snoc ys y)
    with parts(1) have "two_summaries = (earlier @ m # ys) @ [y]" by simp
    then have "y = last two_summaries" by (metis last_snoc)
    moreover from snoc have "y \<in> set later" by simp
    ultimately have "\<not> py_in ''AUDIT_COMPLETE'' (msg_content (last two_summaries))"
      using parts(3) by blast
    then show ?thesis by (simp add: two_summaries_def)
  qed
  then have "msg_content m = '' AUDIT_COMPLETE clause 7 NON-COMPLIANT ''"
    by (simp add: two_summaries_def)
  with node some sentinel_replace_late show ?thesis by simp
qed

text \<open>
  C2: when no message of the transcript contains the sentinel AUDIT_COMPLETE, the
  coordinator does not fail: the summary is the literal "No summary found.", and the one
  finding it returns has exactly that text as its details.
\<close>

theorem missing_sentinel_gives_fallback:
  assumes chat: "\<And>history message. initiate_chat e history groupchat message = Inr chat_history"
    and none: "\<forall>m \<in> set chat_history. \<not> py_in ''AUDIT_COMPLETE'' (msg_content m)"
  shows "fst (autogen_auditor_node e state w) =
           Inr (no_update
             \<lparr>upd_audit_findings :=
                Some [[(''stage'', ''Stage 2 Audit Loop''), (''details'', ''No summary found.'')]],
              upd_messages := Some [HumanMessage ''No summary found.'']\<rparr>)"
proof -
  from none have "find (\<lambda>msg. py_in ''AUDIT_COMPLETE'' (msg_content msg)) (rev chat_history) = None"
    by (simp add: find_None_iff)
  then have "final_summary_msg chat_history = ''No summary found.''"
    by (simp add: final_summary_msg_def)
  with auditor_result [OF chat] fallback_details show ?thesis
    by (simp add: finding_of_def)
qed

theorem missing_sentinel_gives_fallback_witness:
  "length no_summary = 4
   \<and> \<not> list_ex (\<lambda>m. py_in ''AUDIT_COMPLETE'' (msg_content m)) no_summary
   \<and> fst (autogen_auditor_node (sample_env no_summary) (initial_state ''Add Bluetooth module'') w0) =
       Inr (no_update
         \<lparr>upd_audit_findings :=
            Some [[(''stage'', ''Stage 2 Audit Loop''), (''details'', ''No summary found.'')]],
          upd_messages := Some [HumanMessage ''No summary found.'']\<rparr>)"
proof -
  have chat: "\<And>history message.
      initiate_chat (sample_env no_summary) history groupchat message = Inr no_summary"
    by (simp add: sample_env_def)
  have none: "\<forall>m \<in> set no_summary. \<not> py_in ''AUDIT_COMPLETE'' (msg_content m)"
    by (simp add: no_summary_def)
  have "\<not> list_ex (\<lambda>m. py_in ''AUDIT_COMPLETE'' (msg_content m)) no_summary"
    using none by (simp add: list_ex_iff)
  moreover have "length no_summary = 4" by (simp add: no_summary_def)
  ultimately show ?thesis
    using missing_sentinel_gives_fallback
            [of "sample_env no_summary" no_summary "initial_state ''Add Bluetooth module''" w0,
             OF chat none]
    by simp
qed

text \<open>
  The opening message the coordinator sends asks the auditors to end with the sentinel, so
  it contains the sentinel itself: a transcript that includes the opening message always
  has a message with the sentinel.
\<close>

lemma audit_prompt_has_sentinel:
  \<open>py_in ''AUDIT_COMPLETE'' (audit_prompt standards_to_audit loaded_docs_text)\<close>
proof -
  have \<open>audit_prompt standards_to_audit loaded_docs_text =
      (''\<newline>    Please conduct a compliance audit for only the following standards: '' @ standards_to_audit @ ''.\<newline>    \<newline>    Here is the documentation to review:\<newline>    '' @ loaded_docs_text @ ''\<newline>    \<newline>    Auditors, be concise. Review your respective areas and collaborate if software changes affect risk.\<newline>    Summarize findings as "COMPLIANT" or "NON-COMPLIANT" for key clauses.\<newline>    End with "'')
      @ ''AUDIT_COMPLETE'' @ ''".\<newline>    ''\<close>
    by (simp add: audit_prompt_def)
  then show ?thesis unfolding py_in_iff by (intro exI)
qed

section \<open>The planner\<close>

lemma py_split_not_Nil: "py_split sep s \<noteq> []"
  by (induction s) (auto split: list.splits)

lemma py_join_Cons: "ps \<noteq> [] \<Longrightarrow> py_join sep (p # ps) = p @ sep @ py_join sep ps"
  by (cases ps) simp_all

lemma py_join_split: "py_join [sep] (py_split sep s) = s"
proof (induction s)
  case Nil
  show ?case by simp
next
  case (Cons c cs)
  show ?case
  proof (cases "c = sep")
    case True
    with Cons py_split_not_Nil [of sep cs] show ?thesis by (simp add: py_join_Cons)
  next
    case False
    obtain p ps where split: "py_split sep cs = p # ps"
      using py_split_not_Nil [of sep cs] by (cases "py_split sep cs") auto
    with Cons have "py_join [sep] (p # ps) = cs" by simp
    then have "py_join [sep] ((c # p) # ps) = c # cs" by (cases ps) auto
    with False split show ?thesis by simp
  qed
qed

lemma py_split_pieces: "p \<in> set (py_split sep s) \<Longrightarrow> sep \<notin> set p"
proof (induction s arbitrary: p)
  case Nil
  then show ?case by simp
next
  case (Cons c cs)
  show ?case
  proof (cases "c = sep")
    case True
    with Cons show ?thesis by auto
  next
    case False
    obtain q qs where split: "py_split sep cs = q # qs"
      using py_split_not_Nil [of sep cs] by (cases "py_split sep cs") auto
    with False Cons.prems have "p = c # q \<or> p \<in> set qs" by simp
    then show ?thesis
    proof
      assume "p = c # q"
      moreover have "sep \<notin> set q" using Cons.IH [of q] split by simp
      ultimately show ?thesis using False by auto
    next
      assume "p \<in> set qs"
      then show ?thesis using Cons.IH [of p] split by simp
    qed
  qed
qed

lemma py_split_length: "length (py_split sep s) = Suc (count_list s sep)"
proof (induction s)
  case Nil
  show ?case by simp
next
  case (Cons c cs)
  obtain q qs where split: "py_split sep cs = q # qs"
    using py_split_not_Nil [of sep cs] by (cases "py_split sep cs") auto
  with Cons show ?case by auto
qed

text \<open>
  C6: whatever the request, when the classification call answers with a text, the planner
  writes as impacted_standards the pieces of that text between its commas, in order, each
  trimmed of surrounding whitespace. The list is never empty (one piece more than there
  are commas), and no piece is checked or dropped: joining the untrimmed pieces with
  commas gives the answer back.
\<close>

theorem planner_splits_and_trims:
  assumes "llm_langchain e (trace w) planner_system (user_request state) = Inr content"
  shows "fst (orchestrator_planner_node e state w) =
           Inr (no_update\<lparr>upd_impacted_standards := Some (map py_strip (py_split CHR '','' content))\<rparr>)
         \<and> map py_strip (py_split CHR '','' content) \<noteq> []
         \<and> length (map py_strip (py_split CHR '','' content)) = Suc (count_list content CHR '','')
         \<and> py_join '','' (py_split CHR '','' content) = content
         \<and> (\<forall>p \<in> set (py_split CHR '','' content). CHR '','' \<notin> set p)
         \<and> (\<forall>t \<in> set (map py_strip (py_split CHR '','' content)).
               t = [] \<or> (\<not> py_isspace (hd t) \<and> \<not> py_isspace (last t)))"
proof -
  have node: "fst (orchestrator_planner_node e state w) =
      Inr (no_update\<lparr>upd_impacted_standards := Some (map py_strip (py_split CHR '','' content))\<rparr>)"
    using assms
    by (simp add: orchestrator_planner_node_def chain_invoke_def print_def Let_def)
  have trimmed: "\<forall>t \<in> set (map py_strip (py_split CHR '','' content)).
      t = [] \<or> (\<not> py_isspace (hd t) \<and> \<not> py_isspace (last t))"
    using py_strip_trimmed by auto
  from node trimmed py_split_not_Nil [of "CHR '',''" content] py_split_length [of "CHR '',''" content]
    py_join_split [of "CHR '',''" content] py_split_pieces [of _ "CHR '',''" content]
  show ?thesis by simp
qed

lemma sample_split:
  "map py_strip (py_split CHR '','' ''IEC 62304, ISO 14971'') = [''IEC 62304'', ''ISO 14971'']"
  by (simp add: py_strip_def py_isspace_def)

theorem planner_splits_and_trims_witness:
  "llm_langchain (sample_env []) (trace w0) planner_system
      (user_request (initial_state ''Add Bluetooth module'')) = Inr ''IEC 62304, ISO 14971''
   \<and> fst (orchestrator_planner_node (sample_env []) (initial_state ''Add Bluetooth module'') w0) =
       Inr (no_update\<lparr>upd_impacted_standards := Some [''IEC 62304'', ''ISO 14971'']\<rparr>)"
proof -
  have call: "llm_langchain (sample_env []) (trace w0) planner_system
      (user_request (initial_state ''Add Bluetooth module'')) = Inr ''IEC 62304, ISO 14971''"
    by (simp add: sample_env_def)
  from planner_splits_and_trims [OF call] sample_split call show ?thesis by simp
qed

section \<open>The document loader\<close>

lemma loader_result:
  assumes "data_loading_node e state w = (Inr u, w')"
  shows "\<exists>technical_input srs rmf.
           (open_read e (trace w) spec_file_path = Contents technical_input
            \<or> open_read e (trace w) spec_file_path = FileNotFoundError
               \<and> technical_input = user_request state)
           \<and> u = no_update\<lparr>upd_loaded_documents :=
                   Some (docs_for (list_ex (py_in ''62304'') (impacted_standards state))
                           (list_ex (py_in ''14971'') (impacted_standards state))
                           (list_ex (py_in ''13485'') (impacted_standards state)) srs rmf)\<rparr>
           \<and> trace w' = trace w @ FileOpen spec_file_path
                # (if list_ex (py_in ''62304'') (impacted_standards state)
                   then [Completion srs_system (combined_input_of technical_input (user_request state))]
                   else [])
                @ (if list_ex (py_in ''14971'') (impacted_standards state)
                   then [Completion rmf_system (combined_input_of technical_input (user_request state))]
                   else [])"
  using assms
  unfolding data_loading_node_def read_technical_input_def load_srs_def load_rmf_def load_qms_def
    fetch_software_requirements_spec_def fetch_risk_management_file_def chain_invoke_def
    print_def Let_def docs_for_def
  by (auto split: file_result.splits sum.splits if_splits prod.splits)

lemmas loader_defs =
  data_loading_node_def read_technical_input_def load_srs_def load_rmf_def load_qms_def
  fetch_software_requirements_spec_def fetch_risk_management_file_def chain_invoke_def
  print_def Let_def

lemma loader_file_missing:
  assumes nf: "open_read e (trace w) spec_file_path = FileNotFoundError"
  shows "\<exists>calls.
           trace (snd (data_loading_node e state w)) = trace w @ FileOpen spec_file_path # calls
           \<and> (\<forall>c \<in> set calls. \<exists>sys.
                 c = Completion sys (combined_input_of (user_request state) (user_request state)))"
  using nf unfolding loader_defs
  by (auto split: sum.splits if_splits prod.splits)

lemma loader_warns:
  assumes nf: "open_read e (trace w) spec_file_path = FileNotFoundError"
  shows "Print (''Warning: '' @ spec_file_path @ '' not found, using user request only'')
            \<in> set (stdout (snd (data_loading_node e state w)))"
  using nf unfolding loader_defs
  by (auto split: sum.splits if_splits prod.splits)

lemma loader_failure_source:
  assumes nf: "open_read e (trace w) spec_file_path \<noteq> ReadFailure err"
    and "fst (data_loading_node e state w) = Inl err"
  shows "\<exists>history sys request. llm_langchain e history sys request = Inl err"
  using assms unfolding loader_defs
  by (auto split: sum.splits if_splits prod.splits file_result.splits)

text \<open>
  C3: whenever the loader returns, the keys of loaded_documents are exactly those among
  SRS, RMF and QMS whose marker ("62304", "14971", "13485") occurs in some element of
  impacted_standards: no marker gives the empty dictionary, all three markers give the
  three keys, and the QMS entry is the fixed placeholder text. The only completion calls
  made are the one for SRS and the one for RMF; the QMS entry needs none.
\<close>

theorem loader_keys_follow_markers:
  assumes "fst (data_loading_node e state w) = Inr u"
  shows "\<exists>docs technical_input.
           u = no_update\<lparr>upd_loaded_documents := Some docs\<rparr>
           \<and> set (map fst docs) =
               {k. k = ''SRS'' \<and> list_ex (py_in ''62304'') (impacted_standards state)
                 \<or> k = ''RMF'' \<and> list_ex (py_in ''14971'') (impacted_standards state)
                 \<or> k = ''QMS'' \<and> list_ex (py_in ''13485'') (impacted_standards state)}
           \<and> distinct (map fst docs)
           \<and> (\<not> list_ex (py_in ''62304'') (impacted_standards state)
                \<and> \<not> list_ex (py_in ''14971'') (impacted_standards state)
                \<and> \<not> list_ex (py_in ''13485'') (impacted_standards state) \<longrightarrow> docs = [])
           \<and> (list_ex (py_in ''62304'') (impacted_standards state)
                \<and> list_ex (py_in ''14971'') (impacted_standards state)
                \<and> list_ex (py_in ''13485'') (impacted_standards state)
                \<longrightarrow> map fst docs = [''SRS'', ''RMF'', ''QMS''])
           \<and> (list_ex (py_in ''13485'') (impacted_standards state)
                \<longrightarrow> map_of docs ''QMS'' = Some ''QMS documentation placeholder'')
           \<and> trace (snd (data_loading_node e state w)) =
               trace w @ FileOpen spec_file_path
               # (if list_ex (py_in ''62304'') (impacted_standards state)
                  then [Completion srs_system (combined_input_of technical_input (user_request state))]
                  else [])
               @ (if list_ex (py_in ''14971'') (impacted_standards state)
                  then [Completion rmf_system (combined_input_of technical_input (user_request state))]
                  else [])"
proof -
  obtain r w' where run: "data_loading_node e state w = (r, w')"
    by (cases "data_loading_node e state w")
  with assms have "data_loading_node e state w = (Inr u, w')" by simp
  from loader_result [OF this] obtain technical_input srs rmf where
    u: "u = no_update\<lparr>upd_loaded_documents :=
            Some (docs_for (list_ex (py_in ''62304'') (impacted_standards state))
                    (list_ex (py_in ''14971'') (impacted_standards state))
                    (list_ex (py_in ''13485'') (impacted_standards state)) srs rmf)\<rparr>"
    and t: "trace w' = trace w @ FileOpen spec_file_path
                # (if list_ex (py_in ''62304'') (impacted_standards state)
                   then [Completion srs_system (combined_input_of technical_input (user_request state))]
                   else [])
                @ (if list_ex (py_in ''14971'') (impacted_standards state)
                   then [Completion rmf_system (combined_input_of technical_input (user_request state))]
                   else [])"
    by blast
  let ?docs = "docs_for (list_ex (py_in ''62304'') (impacted_standards state))
                    (list_ex (py_in ''14971'') (impacted_standards state))
                    (list_ex (py_in ''13485'') (impacted_standards state)) srs rmf"
  have keys: "set (map fst ?docs) =
               {k. k = ''SRS'' \<and> list_ex (py_in ''62304'') (impacted_standards state)
                 \<or> k = ''RMF'' \<and> list_ex (py_in ''14971'') (impacted_standards state)
                 \<or> k = ''QMS'' \<and> list_ex (py_in ''13485'') (impacted_standards state)}"
    by (auto simp: docs_for_def)
  have dist: "distinct (map fst ?docs)" by (simp add: docs_for_def)
  have none: "\<not> list_ex (py_in ''62304'') (impacted_standards state)
                \<and> \<not> list_ex (py_in ''14971'') (impacted_standards state)
                \<and> \<not> list_ex (py_in ''13485'') (impacted_standards state) \<longrightarrow> ?docs = []"
    by (simp add: docs_for_def)
  have all: "list_ex (py_in ''62304'') (impacted_standards state)
                \<and> list_ex (py_in ''14971'') (impacted_standards state)
                \<and> list_ex (py_in ''13485'') (impacted_standards state)
                \<longrightarrow> map fst ?docs = [''SRS'', ''RMF'', ''QMS'']"
    by (simp add: docs_for_def)
  have qms: "list_ex (py_in ''13485'') (impacted_standards state)
                \<longrightarrow> map_of ?docs ''QMS'' = Some ''QMS documentation placeholder''"
    by (simp add: docs_for_def)
  from t run have t': "trace (snd (data_loading_node e state w)) =
               trace w @ FileOpen spec_file_path
               # (if list_ex (py_in ''62304'') (impacted_standards state)
                  then [Completion srs_system (combined_input_of technical_input (user_request state))]
                  else [])
               @ (if list_ex (py_in ''14971'') (impacted_standards state)
                  then [Completion rmf_system (combined_input_of technical_input (user_request state))]
                  else [])" by simp
  show ?thesis
    apply (rule exI [of _ ?docs])
    apply (rule exI [of _ technical_input])
    apply (intro conjI)
    apply (rule u, rule keys, rule dist, rule none, rule all, rule qms, rule t')
    done
qed

lemma all_three_loaded:
  "fst (data_loading_node (sample_env []) all_three w0) =
     Inr (no_update\<lparr>upd_loaded_documents :=
            Some [(''SRS'', ''IEC 62304, ISO 14971''), (''RMF'', ''IEC 62304, ISO 14971''),
                  (''QMS'', ''QMS documentation placeholder'')]\<rparr>)"
  by (simp add: loader_defs sample_env_def all_three_def initial_state_def w0_def)

theorem loader_keys_follow_markers_witness:
  "fst (data_loading_node (sample_env []) all_three w0) =
     Inr (no_update\<lparr>upd_loaded_documents :=
            Some [(''SRS'', ''IEC 62304, ISO 14971''), (''RMF'', ''IEC 62304, ISO 14971''),
                  (''QMS'', ''QMS documentation placeholder'')]\<rparr>)
   \<and> list_ex (py_in ''62304'') (impacted_standards all_three)
   \<and> list_ex (py_in ''14971'') (impacted_standards all_three)
   \<and> list_ex (py_in ''13485'') (impacted_standards all_three)
   \<and> (\<exists>docs. no_update\<lparr>upd_loaded_documents :=
            Some [(''SRS'', ''IEC 62304, ISO 14971''), (''RMF'', ''IEC 62304, ISO 14971''),
                  (''QMS'', ''QMS documentation placeholder'')]\<rparr>
          = no_update\<lparr>upd_loaded_documents := Some docs\<rparr>
        \<and> map fst docs = [''SRS'', ''RMF'', ''QMS'']
        \<and> map_of docs ''QMS'' = Some ''QMS documentation placeholder'')"
proof -
  have m: "list_ex (py_in ''62304'') (impacted_standards all_three)"
    "list_ex (py_in ''14971'') (impacted_standards all_three)"
    "list_ex (py_in ''13485'') (impacted_standards all_three)"
    by (simp_all add: all_three_def initial_state_def)
  from loader_keys_follow_markers [OF all_three_loaded]
  obtain docs and technical_input :: string where
    d: "no_update\<lparr>upd_loaded_documents :=
            Some [(''SRS'', ''IEC 62304, ISO 14971''), (''RMF'', ''IEC 62304, ISO 14971''),
                  (''QMS'', ''QMS documentation placeholder'')]\<rparr>
          = no_update\<lparr>upd_loaded_documents := Some docs\<rparr>"
    and a: "list_ex (py_in ''62304'') (impacted_standards all_three)
                \<and> list_ex (py_in ''14971'') (impacted_standards all_three)
                \<and> list_ex (py_in ''13485'') (impacted_standards all_three)
                \<longrightarrow> map fst docs = [''SRS'', ''RMF'', ''QMS'']"
    and q: "list_ex (py_in ''13485'') (impacted_standards all_three)
                \<longrightarrow> map_of docs ''QMS'' = Some ''QMS documentation placeholder''"
    by (elim exE conjE) (rule that)
  from a m have a': "map fst docs = [''SRS'', ''RMF'', ''QMS'']" by (simp only: simp_thms)
  from q m have q': "map_of docs ''QMS'' = Some ''QMS documentation placeholder''"
    by (simp only: simp_thms)
  from d a' q' have "\<exists>docs. no_update\<lparr>upd_loaded_documents :=
            Some [(''SRS'', ''IEC 62304, ISO 14971''), (''RMF'', ''IEC 62304, ISO 14971''),
                  (''QMS'', ''QMS documentation placeholder'')]\<rparr>
          = no_update\<lparr>upd_loaded_documents := Some docs\<rparr>
        \<and> map fst docs = [''SRS'', ''RMF'', ''QMS'']
        \<and> map_of docs ''QMS'' = Some ''QMS documentation placeholder''"
    by (intro exI [of _ docs] conjI)
  with all_three_loaded m show ?thesis by (intro conjI)
qed

text \<open>
  C4, as stated, fails: with the file absent the text sent to a generation call is not the
  raw request but the two-part template with the request in both places.
\<close>

theorem combined_input_is_not_the_request:
  \<open>open_read (sample_env []) (trace w0) spec_file_path = FileNotFoundError
   \<and> trace (snd (data_loading_node (sample_env []) software_only w0)) =
       [FileOpen spec_file_path,
        Completion srs_system
          ''Technical Specification:\<newline>Add Bluetooth module\<newline>\<newline>User Request:\<newline>Add Bluetooth module'']
   \<and> ''Technical Specification:\<newline>Add Bluetooth module\<newline>\<newline>User Request:\<newline>Add Bluetooth module''
       \<noteq> user_request software_only\<close>
  by (simp add: loader_defs sample_env_def software_only_def initial_state_def w0_def
        combined_input_of_def)

text \<open>
  C4, amended: when the technical-specification file is absent the loader does not fail
  because of it. It prints the warning, takes the request text as the technical input, and
  every generation call it makes receives "Technical Specification:", the request, "User
  Request:", the request. The loader then fails only if a completion call fails, and it
  returns whenever the completion service answers.
\<close>

theorem missing_spec_file_is_recovered:
  assumes nf: "open_read e (trace w) spec_file_path = FileNotFoundError"
  shows "Print (''Warning: '' @ spec_file_path @ '' not found, using user request only'')
            \<in> set (stdout (snd (data_loading_node e state w)))
         \<and> (\<exists>calls.
               trace (snd (data_loading_node e state w)) = trace w @ FileOpen spec_file_path # calls
               \<and> (\<forall>c \<in> set calls. \<exists>sys.
                     c = Completion sys
                           (''Technical Specification:\<newline>'' @ user_request state
                              @ ''\<newline>\<newline>User Request:\<newline>'' @ user_request state)))
         \<and> (\<forall>err. fst (data_loading_node e state w) = Inl err
               \<longrightarrow> (\<exists>history sys request. llm_langchain e history sys request = Inl err))
         \<and> ((\<forall>history sys request. \<exists>answer. llm_langchain e history sys request = Inr answer)
               \<longrightarrow> (\<exists>u. fst (data_loading_node e state w) = Inr u))"
proof -
  have source: "\<exists>history sys request. llm_langchain e history sys request = Inl err"
    if "fst (data_loading_node e state w) = Inl err" for err
  proof -
    from nf have "open_read e (trace w) spec_file_path \<noteq> ReadFailure err" by simp
    from loader_failure_source [OF this that] show ?thesis .
  qed
  have total: "\<exists>u. fst (data_loading_node e state w) = Inr u"
    if ok: "\<forall>history sys request. \<exists>answer. llm_langchain e history sys request = Inr answer"
  proof (cases "fst (data_loading_node e state w)")
    case (Inl err)
    from source [OF this] obtain history sys request
      where "llm_langchain e history sys request = Inl err" by (elim exE)
    moreover from ok obtain answer where "llm_langchain e history sys request = Inr answer"
      by (elim allE exE)
    ultimately show ?thesis by simp
  next
    case (Inr u)
    then show ?thesis by (intro exI)
  qed
  from loader_file_missing [OF nf, of state]
  have calls: "\<exists>calls.
               trace (snd (data_loading_node e state w)) = trace w @ FileOpen spec_file_path # calls
               \<and> (\<forall>c \<in> set calls. \<exists>sys.
                     c = Completion sys
                           (''Technical Specification:\<newline>'' @ user_request state
                              @ ''\<newline>\<newline>User Request:\<newline>'' @ user_request state))"
    by (simp only: combined_input_of_def)
  show ?thesis
    apply (intro conjI allI impI)
       apply (rule loader_warns [OF nf])
      apply (rule calls)
     apply (erule source)
    apply (erule total)
    done
qed

theorem missing_spec_file_is_recovered_witness:
  "open_read (sample_env []) (trace w0) spec_file_path = FileNotFoundError
   \<and> Print (''Warning: '' @ spec_file_path @ '' not found, using user request only'')
        \<in> set (stdout (snd (data_loading_node (sample_env []) software_only w0)))
   \<and> (\<exists>u. fst (data_loading_node (sample_env []) software_only w0) = Inr u)"
proof -
  have nf: "open_read (sample_env []) (trace w0) spec_file_path = FileNotFoundError"
    by (simp add: sample_env_def)
  have ok: "\<forall>history sys request. \<exists>answer. llm_langchain (sample_env []) history sys request = Inr answer"
    by (simp add: sample_env_def)
  note recovered = missing_spec_file_is_recovered [OF nf, of software_only]
  have warn: "Print (''Warning: '' @ spec_file_path @ '' not found, using user request only'')
        \<in> set (stdout (snd (data_loading_node (sample_env []) software_only w0)))"
    using recovered by (rule conjunct1)
  have total: "(\<forall>history sys request. \<exists>answer. llm_langchain (sample_env []) history sys request = Inr answer)
               \<longrightarrow> (\<exists>u. fst (data_loading_node (sample_env []) software_only w0) = Inr u)"
    by (rule recovered [THEN conjunct2, THEN conjunct2, THEN conjunct2])
  from total ok have "\<exists>u. fst (data_loading_node (sample_env []) software_only w0) = Inr u"
    by (rule mp)
  with nf warn show ?thesis by (intro conjI)
qed

section \<open>The report compiler\<close>

lemma compiler_result:
  "fst (report_compiler_node e s w) =
     (case finding_lines (audit_findings s) of
        Inl err \<Rightarrow> Inl err
      | Inr ls \<Rightarrow>
          Inr (no_update\<lparr>upd_final_report_content :=
                 Some (report_template (user_request s) (impacted_standards s)
                         (py_join ''\<newline>'' ls))\<rparr>))"
  by (simp add: report_compiler_node_def Let_def split: sum.splits)

lemma compiler_trace: "trace (snd (report_compiler_node e s w)) = trace w"
  by (simp add: report_compiler_node_def Let_def print_def split: sum.splits)

lemma report_has_date: \<open>py_in ''**Date:** 2026-01-27'' (report_template request standards findings_text)\<close>
proof -
  have \<open>report_template request standards findings_text =
      ''\<newline># Medical Device Compliance Audit Report\<newline>\<newline>'' @ ''**Date:** 2026-01-27''
      @ (''\<newline>**Trigger:** User Request - "'' @ request @ ''"\<newline>**Scope:** '' @ py_join '', '' standards @ ''\<newline>\<newline>## Executive Summary\<newline>An audit was conducted on the updated technical documentation. Below are the findings from the automated specialist agents.\<newline>\<newline>## Audit Findings Summary\<newline>\<newline>'' @ findings_text @ ''\<newline>\<newline>## Next Actions\<newline>Review NON-COMPLIANT items and initiate CAPA (Corrective and Preventive Action) process if necessary. Update documentation before submission.\<newline>    '')\<close>
    by (simp add: report_template_def)
  then show ?thesis unfolding py_in_iff by (intro exI)
qed

text \<open>
  C8: the report the compiler returns is a function of user_request, impacted_standards
  and audit_findings alone: two states that agree on these give the same result, whatever
  the other fields, the services and the world are. The compiler makes no external call,
  running it again on the state merged with its own output returns the same report, and
  the report carries the fixed date 2026-01-27.
\<close>

theorem report_compiler_is_deterministic:
  "(user_request s1 = user_request s2 \<and> impacted_standards s1 = impacted_standards s2
      \<and> audit_findings s1 = audit_findings s2
      \<longrightarrow> fst (report_compiler_node e1 s1 w1) = fst (report_compiler_node e2 s2 w2))
   \<and> trace (snd (report_compiler_node e s w)) = trace w
   \<and> (\<forall>u. fst (report_compiler_node e s w) = Inr u
          \<longrightarrow> fst (report_compiler_node e (apply_update s u) (snd (report_compiler_node e s w))) = Inr u
              \<and> (\<exists>report. u = no_update\<lparr>upd_final_report_content := Some report\<rparr>
                    \<and> py_in ''**Date:** 2026-01-27'' report))"
proof (intro conjI allI impI)
  assume "user_request s1 = user_request s2 \<and> impacted_standards s1 = impacted_standards s2
      \<and> audit_findings s1 = audit_findings s2"
  then show "fst (report_compiler_node e1 s1 w1) = fst (report_compiler_node e2 s2 w2)"
    by (auto simp: compiler_result split: sum.splits)
next
  show "trace (snd (report_compiler_node e s w)) = trace w" by (rule compiler_trace)
next
  fix u assume u: "fst (report_compiler_node e s w) = Inr u"
  then obtain ls where ls: "finding_lines (audit_findings s) = Inr ls"
    and u': "u = no_update\<lparr>upd_final_report_content :=
                 Some (report_template (user_request s) (impacted_standards s)
                         (py_join ''\<newline>'' ls))\<rparr>"
    by (auto simp: compiler_result split: sum.splits)
  have same: "user_request (apply_update s u) = user_request s"
    "impacted_standards (apply_update s u) = impacted_standards s"
    "audit_findings (apply_update s u) = audit_findings s"
    by (simp_all add: u' apply_update_def no_update_def)
  have "fst (report_compiler_node e (apply_update s u) (snd (report_compiler_node e s w))) =
          (case finding_lines (audit_findings s) of
             Inl err \<Rightarrow> Inl err
           | Inr ls \<Rightarrow>
               Inr (no_update\<lparr>upd_final_report_content :=
                      Some (report_template (user_request s) (impacted_standards s)
                              (py_join ''\<newline>'' ls))\<rparr>))"
    by (simp only: compiler_result same)
  also have "\<dots> = Inr u" by (simp only: ls u' sum.case)
  finally show "fst (report_compiler_node e (apply_update s u) (snd (report_compiler_node e s w))) = Inr u" .
  show "\<exists>report. u = no_update\<lparr>upd_final_report_content := Some report\<rparr>
          \<and> py_in ''**Date:** 2026-01-27'' report"
    using u' report_has_date by (intro exI conjI)
qed

theorem report_compiler_is_deterministic_witness:
  "user_request sample_report_state = user_request other_report_state
   \<and> impacted_standards sample_report_state = impacted_standards other_report_state
   \<and> audit_findings sample_report_state = audit_findings other_report_state
   \<and> fst (report_compiler_node (sample_env []) sample_report_state w0)
       = fst (report_compiler_node (sample_env no_summary) other_report_state busy_world)
   \<and> fst (report_compiler_node (sample_env []) sample_report_state w0)
       = Inr (no_update\<lparr>upd_final_report_content :=
                Some (report_template ''Add Bluetooth module'' [''IEC 62304''] ''- COMPLIANT'')\<rparr>)"
proof -
  have same: "user_request sample_report_state = user_request other_report_state
     \<and> impacted_standards sample_report_state = impacted_standards other_report_state
     \<and> audit_findings sample_report_state = audit_findings other_report_state"
    by (simp add: sample_report_state_def other_report_state_def)
  have "fst (report_compiler_node (sample_env []) sample_report_state w0)
       = fst (report_compiler_node (sample_env no_summary) other_report_state busy_world)"
    by (rule mp [OF report_compiler_is_deterministic
                      [of sample_report_state other_report_state "sample_env []" w0
                          "sample_env no_summary" busy_world, THEN conjunct1] same])
  moreover have "fst (report_compiler_node (sample_env []) sample_report_state w0)
       = Inr (no_update\<lparr>upd_final_report_content :=
                Some (report_template ''Add Bluetooth module'' [''IEC 62304''] ''- COMPLIANT'')\<rparr>)"
    by (simp add: compiler_result sample_report_state_def details_of_def)
  ultimately show ?thesis using same by simp
qed

section \<open>Who writes which field\<close>

lemma node_update_shape:
  assumes "fst (node_action n e s w) = Inr u"
  shows "case n of
           Planner \<Rightarrow> \<exists>v. u = no_update\<lparr>upd_impacted_standards := Some v\<rparr>
         | Data_loader \<Rightarrow> \<exists>v. u = no_update\<lparr>upd_loaded_documents := Some v\<rparr>
         | Autogen_auditor \<Rightarrow> \<exists>v m. u = no_update\<lparr>upd_audit_findings := Some v, upd_messages := Some m\<rparr>
         | Compiler \<Rightarrow> \<exists>v. u = no_update\<lparr>upd_final_report_content := Some v\<rparr>"
proof (cases n)
  case Planner
  with assms show ?thesis
    by (auto simp: orchestrator_planner_node_def chain_invoke_def Let_def split: sum.splits)
next
  case Data_loader
  obtain r w' where run: "data_loading_node e s w = (r, w')"
    by (cases "data_loading_node e s w")
  with assms Data_loader have "data_loading_node e s w = (Inr u, w')" by simp
  from loader_result [OF this] Data_loader show ?thesis by auto
next
  case Autogen_auditor
  with assms show ?thesis
    by (auto simp: autogen_auditor_node_def Let_def split: sum.splits)
next
  case Compiler
  with assms show ?thesis
    by (auto simp: report_compiler_node_def Let_def split: sum.splits)
qed

lemma node_writes:
  assumes "fst (node_action n e s w) = Inr u"
  shows "keys_of u = spec_write_set n"
    and "f \<notin> set (spec_write_set n) \<Longrightarrow> agree_on f (apply_update s u) s"
  using node_update_shape [OF assms]
  by (cases n; cases f; auto simp: keys_of_def no_update_def apply_update_def)+

lemma run_from_keeps_request:
  "fst (run_from e n s w) = Inr s' \<Longrightarrow> user_request s' = user_request s"
proof (induction e n s w rule: run_from.induct)
  case (1 e n state w)
  obtain r w' where act: "node_action n e state w = (r, w')"
    by (cases "node_action n e state w")
  show ?case
  proof (cases r)
    case (Inl err)
    with act "1.prems" show ?thesis by (simp add: run_from.simps [of e n state w])
  next
    case (Inr u)
    with act have "fst (node_action n e state w) = Inr u" by simp
    from node_writes(2) [OF this, of Field_user_request]
    have keep: "user_request (apply_update state u) = user_request state"
      by (cases n) auto
    show ?thesis
    proof (cases "edge n")
      case None
      with act Inr "1.prems" keep show ?thesis by (simp add: run_from.simps [of e n state w])
    next
      case (Some n')
      with act Inr "1.prems" have "fst (run_from e n' (apply_update state u) w') = Inr s'"
        by (simp add: run_from.simps [of e n state w])
      with "1.IH" [OF act [symmetric] Inr Some] keep show ?thesis by simp
    qed
  qed
qed

text \<open>
  C7: a node that returns writes exactly the fields of its own write set: the planner
  impacted_standards, the loader loaded_documents, the coordinator audit_findings and the
  message log, the compiler final_report_content; every other field of the merged state
  is the one it received. The write sets are disjoint, each field but user_request has
  exactly one writer, and user_request has none: a whole run returns it as it was given.
\<close>

theorem single_writer_discipline:
  assumes "fst (node_action n e s w) = Inr u"
  shows "keys_of u = spec_write_set n
         \<and> (\<forall>f. f \<notin> set (spec_write_set n) \<longrightarrow> agree_on f (apply_update s u) s)
         \<and> Field_user_request \<notin> set (spec_write_set n)
         \<and> (\<forall>n'. n' \<noteq> n \<longrightarrow> set (spec_write_set n) \<inter> set (spec_write_set n') = {})
         \<and> (\<forall>f. f \<noteq> Field_user_request \<longrightarrow> (\<exists>!writer. f \<in> set (spec_write_set writer)))
         \<and> (\<forall>s'. fst (app_invoke e s w) = Inr s' \<longrightarrow> user_request s' = user_request s)"
proof (intro conjI allI impI)
  show "keys_of u = spec_write_set n" by (rule node_writes(1) [OF assms])
next
  fix f assume "f \<notin> set (spec_write_set n)"
  then show "agree_on f (apply_update s u) s" by (rule node_writes(2) [OF assms])
next
  show "Field_user_request \<notin> set (spec_write_set n)" by (cases n) simp_all
next
  fix n' assume "n' \<noteq> n"
  then show "set (spec_write_set n) \<inter> set (spec_write_set n') = {}"
    by (cases n; cases n') simp_all
next
  fix f assume f: "f \<noteq> Field_user_request"
  show "\<exists>!writer. f \<in> set (spec_write_set writer)"
  proof (cases f)
    case Field_user_request
    with f show ?thesis by simp
  next
    case Field_impacted_standards
    show ?thesis
    proof (rule ex1I [of _ Planner])
      show "f \<in> set (spec_write_set Planner)" using Field_impacted_standards by simp
      fix x assume "f \<in> set (spec_write_set x)"
      with Field_impacted_standards show "x = Planner" by (cases x) simp_all
    qed
  next
    case Field_loaded_documents
    show ?thesis
    proof (rule ex1I [of _ Data_loader])
      show "f \<in> set (spec_write_set Data_loader)" using Field_loaded_documents by simp
      fix x assume "f \<in> set (spec_write_set x)"
      with Field_loaded_documents show "x = Data_loader" by (cases x) simp_all
    qed
  next
    case Field_audit_findings
    show ?thesis
    proof (rule ex1I [of _ Autogen_auditor])
      show "f \<in> set (spec_write_set Autogen_auditor)" using Field_audit_findings by simp
      fix x assume "f \<in> set (spec_write_set x)"
      with Field_audit_findings show "x = Autogen_auditor" by (cases x) simp_all
    qed
  next
    case Field_final_report_content
    show ?thesis
    proof (rule ex1I [of _ Compiler])
      show "f \<in> set (spec_write_set Compiler)" using Field_final_report_content by simp
      fix x assume "f \<in> set (spec_write_set x)"
      with Field_final_report_content show "x = Compiler" by (cases x) simp_all
    qed
  next
    case Field_messages
    show ?thesis
    proof (rule ex1I [of _ Autogen_auditor])
      show "f \<in> set (spec_write_set Autogen_auditor)" using Field_messages by simp
      fix x assume "f \<in> set (spec_write_set x)"
      with Field_messages show "x = Autogen_auditor" by (cases x) simp_all
    qed
  qed
next
  fix s' assume "fst (app_invoke e s w) = Inr s'"
  then show "user_request s' = user_request s"
    unfolding app_invoke_def by (rule run_from_keeps_request)
qed

lemma sample_plan:
  "fst (node_action Planner (sample_env []) (initial_state ''Add Bluetooth module'') w0) =
     Inr (no_update\<lparr>upd_impacted_standards := Some [''IEC 62304'', ''ISO 14971'']\<rparr>)"
  by (simp add: orchestrator_planner_node_def chain_invoke_def Let_def sample_env_def
        py_strip_def py_isspace_def)

theorem single_writer_discipline_witness:
  "fst (node_action Planner (sample_env []) (initial_state ''Add Bluetooth module'') w0) =
     Inr (no_update\<lparr>upd_impacted_standards := Some [''IEC 62304'', ''ISO 14971'']\<rparr>)
   \<and> keys_of (no_update\<lparr>upd_impacted_standards := Some [''IEC 62304'', ''ISO 14971'']\<rparr>)
       = [Field_impacted_standards]
   \<and> agree_on Field_user_request
        (apply_update (initial_state ''Add Bluetooth module'')
           (no_update\<lparr>upd_impacted_standards := Some [''IEC 62304'', ''ISO 14971'']\<rparr>))
        (initial_state ''Add Bluetooth module'')"
proof -
  note writes = single_writer_discipline [OF sample_plan]
  have keys: "keys_of (no_update\<lparr>upd_impacted_standards := Some [''IEC 62304'', ''ISO 14971'']\<rparr>)
       = [Field_impacted_standards]"
    using writes [THEN conjunct1] by simp
  have "Field_user_request \<notin> set (spec_write_set Planner)" by simp
  with writes [THEN conjunct2, THEN conjunct1]
  have "agree_on Field_user_request
        (apply_update (initial_state ''Add Bluetooth module'')
           (no_update\<lparr>upd_impacted_standards := Some [''IEC 62304'', ''ISO 14971'']\<rparr>))
        (initial_state ''Add Bluetooth module'')"
    by (elim allE [of _ Field_user_request] impE)
  with sample_plan keys show ?thesis by (intro conjI)
qed

section \<open>The round budget of the audit conversation\<close>

lemma group_chat_turns_length:
  "group_chat_turns reply stop agents budget transcript = Inr result
     \<Longrightarrow> length result \<le> length transcript + budget"
proof (induction budget arbitrary: transcript)
  case 0
  then show ?case by simp
next
  case (Suc budget)
  show ?case
  proof (cases "agents = []")
    case True
    with Suc.prems show ?thesis by simp
  next
    case False
    let ?speaker = "agents ! (length transcript mod length agents)"
    show ?thesis
    proof (cases "reply ?speaker transcript")
      case (Inl err)
      with False Suc.prems show ?thesis by (simp add: Let_def)
    next
      case (Inr said)
      let ?next = "transcript @ [\<lparr>msg_name = agent_name ?speaker, msg_content = said\<rparr>]"
      show ?thesis
      proof (cases "stop said")
        case True
        with False Inr Suc.prems have "result = ?next" by (simp add: Let_def)
        then show ?thesis by simp
      next
        case no_stop: False
        with False Inr Suc.prems
        have "group_chat_turns reply stop agents budget ?next = Inr result"
          by (simp add: Let_def)
        from Suc.IH [OF this] show ?thesis by simp
      qed
    qed
  qed
qed

lemma group_chat_turns_returns:
  assumes "\<forall>a t. \<exists>said. reply a t = Inr said"
  shows "\<exists>result. group_chat_turns reply stop agents budget transcript = Inr result"
proof (induction budget arbitrary: transcript)
  case 0
  show ?case by simp
next
  case (Suc budget)
  show ?case
  proof (cases "agents = []")
    case True
    then show ?thesis by simp
  next
    case False
    let ?speaker = "agents ! (length transcript mod length agents)"
    from assms obtain said where said: "reply ?speaker transcript = Inr said"
      by (elim allE exE)
    let ?next = "transcript @ [\<lparr>msg_name = agent_name ?speaker, msg_content = said\<rparr>]"
    from Suc.IH [of ?next] obtain result
      where "group_chat_turns reply stop agents budget ?next = Inr result" by (elim exE)
    with False said show ?thesis by (cases "stop said") (simp_all add: Let_def)
  qed
qed

lemma group_chat_turns_exhausted:
  assumes "group_chat_turns reply stop agents budget transcript = Inr result"
    and "agents \<noteq> []"
    and "\<forall>m \<in> set result. \<not> stop (msg_content m)"
  shows "length result = length transcript + budget"
  using assms(1,3)
proof (induction budget arbitrary: transcript)
  case 0
  then show ?case by simp
next
  case (Suc budget)
  let ?speaker = "agents ! (length transcript mod length agents)"
  show ?case
  proof (cases "reply ?speaker transcript")
    case (Inl err)
    with assms(2) Suc.prems show ?thesis by (simp add: Let_def)
  next
    case (Inr said)
    let ?next = "transcript @ [\<lparr>msg_name = agent_name ?speaker, msg_content = said\<rparr>]"
    show ?thesis
    proof (cases "stop said")
      case True
      with assms(2) Inr Suc.prems(1) have "result = ?next" by (simp add: Let_def)
      with Suc.prems(2) True show ?thesis by simp
    next
      case False
      with assms(2) Inr Suc.prems(1)
      have "group_chat_turns reply stop agents budget ?next = Inr result"
        by (simp add: Let_def)
      from Suc.IH [OF this Suc.prems(2)] show ?thesis by simp
    qed
  qed
qed

lemma sentinel_is_completion_signal:
  "is_completion_signal groupchat said = py_in ''AUDIT_COMPLETE'' said"
  by (simp add: is_completion_signal_def groupchat_def user_proxy_def software_auditor_def
        risk_auditor_def qms_auditor_def)

lemma auditor_trace:
  "trace (snd (autogen_auditor_node e state w)) =
     trace w @ [ChatRun [''Compliance_Manager'', ''IEC62304_Auditor'', ''ISO14971_Auditor'',
                         ''ISO13485_Auditor''] 4
                  (audit_prompt (py_join '', '' (impacted_standards state))
                     (py_join ''\<newline>\<newline>''
                        (map (\<lambda>(k, v). ''--- Document: '' @ k @ '' ---\<newline>'' @ v)
                           (loaded_documents state))))]"
  by (simp add: autogen_auditor_node_def Let_def print_def groupchat_def user_proxy_def
        software_auditor_def risk_auditor_def qms_auditor_def split: sum.splits)

lemma groupchat_parts:
  "gc_agents groupchat = [user_proxy, software_auditor, risk_auditor, qms_auditor]"
  "gc_max_round groupchat = Suc (Suc (Suc (Suc 0)))"
  "agent_name user_proxy = ''Compliance_Manager''"
  "agent_name software_auditor = ''IEC62304_Auditor''"
  "agent_name risk_auditor = ''ISO14971_Auditor''"
  "agent_name qms_auditor = ''ISO13485_Auditor''"
  by (simp_all add: groupchat_def user_proxy_def software_auditor_def risk_auditor_def
        qms_auditor_def)

lemma scheduled_conversation:
  "spec_scheduler reply history groupchat message =
     group_chat_turns (\<lambda>a. reply a message) (py_in ''AUDIT_COMPLETE'')
       [user_proxy, software_auditor, risk_auditor, qms_auditor] 4 []"
proof -
  have "is_completion_signal groupchat = py_in ''AUDIT_COMPLETE''"
    by (rule ext) (rule sentinel_is_completion_signal)
  then show ?thesis by (simp add: spec_scheduler_def groupchat_def)
qed

lemma auditor_outcome:
  "fst (autogen_auditor_node e state w) =
     (case initiate_chat e (trace w) groupchat (audit_message state) of
        Inl err \<Rightarrow> Inl err
      | Inr transcript \<Rightarrow> Inr (update_from transcript))"
  by (simp add: autogen_auditor_node_def Let_def print_def audit_message_def update_from_def
        split: sum.splits)

lemma no_sentinel_summary:
  assumes "\<forall>m \<in> set transcript. \<not> py_in ''AUDIT_COMPLETE'' (msg_content m)"
  shows "update_from transcript =
           no_update
             \<lparr>upd_audit_findings :=
                Some [[(''stage'', ''Stage 2 Audit Loop''), (''details'', ''No summary found.'')]],
              upd_messages := Some [HumanMessage ''No summary found.'']\<rparr>"
proof -
  from assms have "find (\<lambda>msg. py_in ''AUDIT_COMPLETE'' (msg_content msg)) (rev transcript) = None"
    by (simp add: find_None_iff)
  then have "final_summary_msg transcript = ''No summary found.''"
    by (simp add: final_summary_msg_def)
  with fallback_details show ?thesis by (simp add: update_from_def finding_of_def)
qed

text \<open>
  C5 (against the scheduler as the specification describes it): the coordinator runs one
  conversation, among its four participants, on its opening message, with the fixed
  budget of 4 and the sentinel as completion signal, whatever the state; a failure of a
  turn is the coordinator's failure, and otherwise the finding is built from exactly the
  transcript the conversation returned. That transcript has at most 4 turns. When none of
  its turns holds the sentinel the budget was used up (exactly 4 turns) and the finding is
  the fallback text. The conversation returns whenever no participant's reply fails.
\<close>

theorem audit_conversation_stops_within_budget:
  assumes sched: "initiate_chat e = spec_scheduler reply"
  shows "fst (autogen_auditor_node e state w) =
           (case group_chat_turns (\<lambda>a. reply a (audit_message state)) (py_in ''AUDIT_COMPLETE'')
                   [user_proxy, software_auditor, risk_auditor, qms_auditor] 4 [] of
              Inl err \<Rightarrow> Inl err
            | Inr transcript \<Rightarrow>
                Inr (no_update
                       \<lparr>upd_audit_findings := Some [finding_of (final_summary_msg transcript)],
                        upd_messages := Some [HumanMessage (final_summary_msg transcript)]\<rparr>))
         \<and> trace (snd (autogen_auditor_node e state w)) =
             trace w @ [ChatRun [''Compliance_Manager'', ''IEC62304_Auditor'',
                                 ''ISO14971_Auditor'', ''ISO13485_Auditor''] 4
                          (audit_message state)]
         \<and> (\<forall>transcript.
               group_chat_turns (\<lambda>a. reply a (audit_message state)) (py_in ''AUDIT_COMPLETE'')
                 [user_proxy, software_auditor, risk_auditor, qms_auditor] 4 [] = Inr transcript
               \<longrightarrow> length transcript \<le> 4
                   \<and> ((\<forall>m \<in> set transcript. \<not> py_in ''AUDIT_COMPLETE'' (msg_content m))
                        \<longrightarrow> length transcript = 4
                            \<and> fst (autogen_auditor_node e state w) =
                                Inr (no_update
                                  \<lparr>upd_audit_findings :=
                                     Some [[(''stage'', ''Stage 2 Audit Loop''),
                                            (''details'', ''No summary found.'')]],
                                   upd_messages := Some [HumanMessage ''No summary found.'']\<rparr>)))
         \<and> ((\<forall>a message t. \<exists>said. reply a message t = Inr said)
               \<longrightarrow> (\<exists>transcript.
                     length transcript \<le> 4
                     \<and> group_chat_turns (\<lambda>a. reply a (audit_message state))
                           (py_in ''AUDIT_COMPLETE'')
                           [user_proxy, software_auditor, risk_auditor, qms_auditor] 4 []
                         = Inr transcript
                     \<and> fst (autogen_auditor_node e state w) =
                         Inr (no_update
                           \<lparr>upd_audit_findings := Some [finding_of (final_summary_msg transcript)],
                            upd_messages := Some [HumanMessage (final_summary_msg transcript)]\<rparr>)))
         \<and> (\<forall>history message transcript.
               initiate_chat e history groupchat message = Inr transcript
               \<longrightarrow> length transcript \<le> 4
                   \<and> ((\<forall>m \<in> set transcript. \<not> py_in ''AUDIT_COMPLETE'' (msg_content m))
                        \<longrightarrow> length transcript = 4))"
proof -
  let ?turns = "\<lambda>message. group_chat_turns (\<lambda>a. reply a message) (py_in ''AUDIT_COMPLETE'')
                   [user_proxy, software_auditor, risk_auditor, qms_auditor] 4 []"
  have chat: "initiate_chat e history groupchat message = ?turns message" for history message
    unfolding sched by (rule scheduled_conversation)
  have outcome: "fst (autogen_auditor_node e state w) =
           (case ?turns (audit_message state) of
              Inl err \<Rightarrow> Inl err
            | Inr transcript \<Rightarrow>
                Inr (no_update
                       \<lparr>upd_audit_findings := Some [finding_of (final_summary_msg transcript)],
                        upd_messages := Some [HumanMessage (final_summary_msg transcript)]\<rparr>))"
    unfolding auditor_outcome chat update_from_def ..
  have called: "trace (snd (autogen_auditor_node e state w)) =
             trace w @ [ChatRun [''Compliance_Manager'', ''IEC62304_Auditor'',
                                 ''ISO14971_Auditor'', ''ISO13485_Auditor''] 4
                          (audit_message state)]"
    unfolding audit_message_def by (rule auditor_trace)
  have bound: "length transcript \<le> 4" if "?turns message = Inr transcript" for message transcript
    using group_chat_turns_length [OF that] by simp
  have used_up: "length transcript = 4"
    if run: "?turns message = Inr transcript"
      and quiet: "\<forall>m \<in> set transcript. \<not> py_in ''AUDIT_COMPLETE'' (msg_content m)"
    for message transcript
  proof -
    have "[user_proxy, software_auditor, risk_auditor, qms_auditor] \<noteq> []" by simp
    from group_chat_turns_exhausted [OF run this quiet] show ?thesis by simp
  qed
  have fallback: "fst (autogen_auditor_node e state w) =
                                Inr (no_update
                                  \<lparr>upd_audit_findings :=
                                     Some [[(''stage'', ''Stage 2 Audit Loop''),
                                            (''details'', ''No summary found.'')]],
                                   upd_messages := Some [HumanMessage ''No summary found.'']\<rparr>)"
    if run: "?turns (audit_message state) = Inr transcript"
      and quiet: "\<forall>m \<in> set transcript. \<not> py_in ''AUDIT_COMPLETE'' (msg_content m)"
    for transcript
    using no_sentinel_summary [OF quiet] by (simp add: outcome run update_from_def)
  have returns: "\<exists>transcript.
                     length transcript \<le> 4
                     \<and> ?turns (audit_message state) = Inr transcript
                     \<and> fst (autogen_auditor_node e state w) =
                         Inr (no_update
                           \<lparr>upd_audit_findings := Some [finding_of (final_summary_msg transcript)],
                            upd_messages := Some [HumanMessage (final_summary_msg transcript)]\<rparr>)"
    if ok: "\<forall>a message t. \<exists>said. reply a message t = Inr said"
  proof -
    from ok have "\<forall>a t. \<exists>said. reply a (audit_message state) t = Inr said" by simp
    from group_chat_turns_returns [OF this, of "py_in ''AUDIT_COMPLETE''"
            "[user_proxy, software_auditor, risk_auditor, qms_auditor]" 4 "[]"]
    obtain transcript where run: "?turns (audit_message state) = Inr transcript" by (elim exE)
    from bound [OF run] have "length transcript \<le> 4" .
    moreover from run have "fst (autogen_auditor_node e state w) =
                         Inr (no_update
                           \<lparr>upd_audit_findings := Some [finding_of (final_summary_msg transcript)],
                            upd_messages := Some [HumanMessage (final_summary_msg transcript)]\<rparr>)"
      by (simp add: outcome)
    ultimately show ?thesis using run by (intro exI conjI)
  qed
  show ?thesis
  proof (intro conjI allI impI)
    show "fst (autogen_auditor_node e state w) =
           (case ?turns (audit_message state) of
              Inl err \<Rightarrow> Inl err
            | Inr transcript \<Rightarrow>
                Inr (no_update
                       \<lparr>upd_audit_findings := Some [finding_of (final_summary_msg transcript)],
                        upd_messages := Some [HumanMessage (final_summary_msg transcript)]\<rparr>))"
      by (rule outcome)
  next
    show "trace (snd (autogen_auditor_node e state w)) =
             trace w @ [ChatRun [''Compliance_Manager'', ''IEC62304_Auditor'',
                                 ''ISO14971_Auditor'', ''ISO13485_Auditor''] 4
                          (audit_message state)]"
      by (rule called)
  next
    fix transcript assume "?turns (audit_message state) = Inr transcript"
    then show "length transcript \<le> 4" by (rule bound)
  next
    fix transcript
    assume "?turns (audit_message state) = Inr transcript"
      and "\<forall>m \<in> set transcript. \<not> py_in ''AUDIT_COMPLETE'' (msg_content m)"
    then show "length transcript = 4" by (rule used_up)
  next
    fix transcript
    assume "?turns (audit_message state) = Inr transcript"
      and "\<forall>m \<in> set transcript. \<not> py_in ''AUDIT_COMPLETE'' (msg_content m)"
    then show "fst (autogen_auditor_node e state w) =
                                Inr (no_update
                                  \<lparr>upd_audit_findings :=
                                     Some [[(''stage'', ''Stage 2 Audit Loop''),
                                            (''details'', ''No summary found.'')]],
                                   upd_messages := Some [HumanMessage ''No summary found.'']\<rparr>)"
      by (rule fallback)
  next
    assume "\<forall>a message t. \<exists>said. reply a message t = Inr said"
    then show "\<exists>transcript.
                     length transcript \<le> 4
                     \<and> ?turns (audit_message state) = Inr transcript
                     \<and> fst (autogen_auditor_node e state w) =
                         Inr (no_update
                           \<lparr>upd_audit_findings := Some [finding_of (final_summary_msg transcript)],
                            upd_messages := Some [HumanMessage (final_summary_msg transcript)]\<rparr>)"
      by (rule returns)
  next
    fix history message transcript
    assume "initiate_chat e history groupchat message = Inr transcript"
    then have "?turns message = Inr transcript" by (simp only: chat)
    then show "length transcript \<le> 4" by (rule bound)
  next
    fix history message transcript
    assume "initiate_chat e history groupchat message = Inr transcript"
      and quiet: "\<forall>m \<in> set transcript. \<not> py_in ''AUDIT_COMPLETE'' (msg_content m)"
    then have "?turns message = Inr transcript" by (simp only: chat)
    from this quiet show "length transcript = 4" by (rule used_up)
  qed
qed

lemma terse_conversation:
  "group_chat_turns (\<lambda>a. terse_reply a message) (py_in ''AUDIT_COMPLETE'')
     [user_proxy, software_auditor, risk_auditor, qms_auditor] 4 [] =
     Inr [\<lparr>msg_name = ''Compliance_Manager'', msg_content = ''COMPLIANT''\<rparr>,
          \<lparr>msg_name = ''IEC62304_Auditor'', msg_content = ''COMPLIANT''\<rparr>,
          \<lparr>msg_name = ''ISO14971_Auditor'', msg_content = ''COMPLIANT''\<rparr>,
          \<lparr>msg_name = ''ISO13485_Auditor'', msg_content = ''COMPLIANT''\<rparr>]"
proof -
  have four: "(4::nat) = Suc (Suc (Suc (Suc 0)))" by simp
  show ?thesis unfolding four by (simp add: terse_reply_def groupchat_parts Let_def)
qed

theorem audit_conversation_stops_within_budget_witness:
  "initiate_chat scheduled_env = spec_scheduler terse_reply
   \<and> group_chat_turns (\<lambda>a. terse_reply a (audit_message (initial_state ''Add Bluetooth module'')))
         (py_in ''AUDIT_COMPLETE'') [user_proxy, software_auditor, risk_auditor, qms_auditor] 4 [] =
       Inr [\<lparr>msg_name = ''Compliance_Manager'', msg_content = ''COMPLIANT''\<rparr>,
            \<lparr>msg_name = ''IEC62304_Auditor'', msg_content = ''COMPLIANT''\<rparr>,
            \<lparr>msg_name = ''ISO14971_Auditor'', msg_content = ''COMPLIANT''\<rparr>,
            \<lparr>msg_name = ''ISO13485_Auditor'', msg_content = ''COMPLIANT''\<rparr>]
   \<and> fst (autogen_auditor_node scheduled_env (initial_state ''Add Bluetooth module'') w0) =
       Inr (no_update
         \<lparr>upd_audit_findings :=
            Some [[(''stage'', ''Stage 2 Audit Loop''), (''details'', ''No summary found.'')]],
          upd_messages := Some [HumanMessage ''No summary found.'']\<rparr>)"
proof -
  let ?transcript =
    "[\<lparr>msg_name = ''Compliance_Manager'', msg_content = ''COMPLIANT''\<rparr>,
      \<lparr>msg_name = ''IEC62304_Auditor'', msg_content = ''COMPLIANT''\<rparr>,
      \<lparr>msg_name = ''ISO14971_Auditor'', msg_content = ''COMPLIANT''\<rparr>,
      \<lparr>msg_name = ''ISO13485_Auditor'', msg_content = ''COMPLIANT''\<rparr>]"
  have sched: "initiate_chat scheduled_env = spec_scheduler terse_reply"
    by (simp add: scheduled_env_def)
  note run = terse_conversation [of "audit_message (initial_state ''Add Bluetooth module'')"]
  have quiet: "\<forall>m \<in> set ?transcript. \<not> py_in ''AUDIT_COMPLETE'' (msg_content m)" by simp
  note budget = audit_conversation_stops_within_budget
                  [OF sched, of "initial_state ''Add Bluetooth module''" w0]
  from budget [THEN conjunct2, THEN conjunct2, THEN conjunct1, THEN spec, of ?transcript] run
  have "length ?transcript \<le> 4
        \<and> ((\<forall>m \<in> set ?transcript. \<not> py_in ''AUDIT_COMPLETE'' (msg_content m))
             \<longrightarrow> length ?transcript = 4
                 \<and> fst (autogen_auditor_node scheduled_env (initial_state ''Add Bluetooth module'') w0) =
                     Inr (no_update
                       \<lparr>upd_audit_findings :=
                          Some [[(''stage'', ''Stage 2 Audit Loop''),
                                 (''details'', ''No summary found.'')]],
                        upd_messages := Some [HumanMessage ''No summary found.'']\<rparr>))"
    by (rule mp)
  then have "(\<forall>m \<in> set ?transcript. \<not> py_in ''AUDIT_COMPLETE'' (msg_content m))
             \<longrightarrow> length ?transcript = 4
                 \<and> fst (autogen_auditor_node scheduled_env (initial_state ''Add Bluetooth module'') w0) =
                     Inr (no_update
                       \<lparr>upd_audit_findings :=
                          Some [[(''stage'', ''Stage 2 Audit Loop''),
                                 (''details'', ''No summary found.'')]],
                        upd_messages := Some [HumanMessage ''No summary found.'']\<rparr>)"
    by (rule conjunct2)
  from this quiet
  have "length ?transcript = 4
        \<and> fst (autogen_auditor_node scheduled_env (initial_state ''Add Bluetooth module'') w0) =
            Inr (no_update
              \<lparr>upd_audit_findings :=
                 Some [[(''stage'', ''Stage 2 Audit Loop''), (''details'', ''No summary found.'')]],
               upd_messages := Some [HumanMessage ''No summary found.'']\<rparr>)"
    by (rule mp)
  then have "fst (autogen_auditor_node scheduled_env (initial_state ''Add Bluetooth module'') w0) =
            Inr (no_update
              \<lparr>upd_audit_findings :=
                 Some [[(''stage'', ''Stage 2 Audit Loop''), (''details'', ''No summary found.'')]],
               upd_messages := Some [HumanMessage ''No summary found.'']\<rparr>)"
    by (rule conjunct2)
  with sched run show ?thesis by (intro conjI)
qed

section \<open>The command-line loop\<close>

lemma app_invoke_unfold:
  "app_invoke e s w =
     (case orchestrator_planner_node e s w of
        (Inl err, w1) \<Rightarrow> (Inl err, w1)
      | (Inr u1, w1) \<Rightarrow>
          (case data_loading_node e (apply_update s u1) w1 of
             (Inl err, w2) \<Rightarrow> (Inl err, w2)
           | (Inr u2, w2) \<Rightarrow>
               (case autogen_auditor_node e (apply_update (apply_update s u1) u2) w2 of
                  (Inl err, w3) \<Rightarrow> (Inl err, w3)
                | (Inr u3, w3) \<Rightarrow>
                    (case report_compiler_node e
                            (apply_update (apply_update (apply_update s u1) u2) u3) w3 of
                       (Inl err, w4) \<Rightarrow> (Inl err, w4)
                     | (Inr u4, w4) \<Rightarrow>
                         (Inr (apply_update
                                 (apply_update (apply_update (apply_update s u1) u2) u3) u4),
                          w4)))))"
  unfolding app_invoke_def entry_point_def
  by (simp add: run_from.simps [of e Planner] run_from.simps [of e Data_loader]
        run_from.simps [of e Autogen_auditor] run_from.simps [of e Compiler]
        split: prod.splits sum.splits)

lemma py_strip_fixed:
  assumes "t = [] \<or> (\<not> py_isspace (hd t) \<and> \<not> py_isspace (last t))"
  shows "py_strip t = t"
proof (cases t)
  case Nil
  then show ?thesis by (simp add: py_strip_def)
next
  case (Cons c cs)
  with assms have h: "\<not> py_isspace (hd t)" and l: "\<not> py_isspace (last t)" by simp_all
  from h Cons have "dropWhile py_isspace t = t" by simp
  moreover have "dropWhile py_isspace (rev t) = rev t"
  proof (cases "rev t")
    case Nil
    then show ?thesis by simp
  next
    case (Cons a as)
    then have "a = hd (rev t)" by simp
    also have "\<dots> = last t" using \<open>t = c # cs\<close> by (simp add: hd_rev)
    finally have "\<not> py_isspace a" using l by simp
    with Cons show ?thesis by simp
  qed
  ultimately show ?thesis by (simp add: py_strip_def)
qed

lemma py_strip_idem: "py_strip (py_strip s) = py_strip s"
  by (rule py_strip_fixed) (rule py_strip_trimmed)

lemma py_strip_blank:
  assumes "\<forall>c \<in> set line. py_isspace c"
  shows "py_strip line = []"
proof -
  from assms have blank: "dropWhile py_isspace line = []" by simp
  show ?thesis unfolding py_strip_def blank by simp
qed

lemma planner_trace:
  "trace (snd (orchestrator_planner_node e s w)) = trace w @ [Completion planner_system (user_request s)]"
  by (simp add: orchestrator_planner_node_def chain_invoke_def print_def Let_def split: sum.splits)

lemma app_invoke_calls:
  assumes "fst (app_invoke e s w) = Inr final"
  shows "\<exists>calls message.
           trace (snd (app_invoke e s w)) =
             trace w @ Completion planner_system (user_request s) # FileOpen spec_file_path
               # calls
               @ [ChatRun [''Compliance_Manager'', ''IEC62304_Auditor'', ''ISO14971_Auditor'',
                           ''ISO13485_Auditor''] 4 message]
           \<and> (\<forall>c \<in> set calls. \<exists>r. c = Completion srs_system r \<or> c = Completion rmf_system r)"
proof -
  obtain r1 w1 where n1: "orchestrator_planner_node e s w = (r1, w1)"
    by (cases "orchestrator_planner_node e s w")
  from n1 assms obtain u1 where r1: "r1 = Inr u1"
    by (cases r1) (simp_all add: app_invoke_unfold)
  let ?s1 = "apply_update s u1"
  obtain r2 w2 where n2: "data_loading_node e ?s1 w1 = (r2, w2)"
    by (cases "data_loading_node e ?s1 w1")
  from n1 r1 n2 assms obtain u2 where r2: "r2 = Inr u2"
    by (cases r2) (simp_all add: app_invoke_unfold)
  let ?s2 = "apply_update ?s1 u2"
  obtain r3 w3 where n3: "autogen_auditor_node e ?s2 w2 = (r3, w3)"
    by (cases "autogen_auditor_node e ?s2 w2")
  from n1 r1 n2 r2 n3 assms obtain u3 where r3: "r3 = Inr u3"
    by (cases r3) (simp_all add: app_invoke_unfold)
  let ?s3 = "apply_update ?s2 u3"
  obtain r4 w4 where n4: "report_compiler_node e ?s3 w3 = (r4, w4)"
    by (cases "report_compiler_node e ?s3 w3")
  from n1 r1 n2 r2 n3 r3 n4 assms obtain u4 where r4: "r4 = Inr u4"
    by (cases r4) (simp_all add: app_invoke_unfold)
  from n1 r1 n2 r2 n3 r3 n4 r4 have final_world: "snd (app_invoke e s w) = w4"
    by (simp add: app_invoke_unfold)
  from planner_trace [of e s w] n1
  have t1: "trace w1 = trace w @ [Completion planner_system (user_request s)]" by simp
  from n2 r2 have "data_loading_node e ?s1 w1 = (Inr u2, w2)" by simp
  from loader_result [OF this] obtain technical_input :: string where
    t2: "trace w2 = trace w1 @ FileOpen spec_file_path
           # (if list_ex (py_in ''62304'') (impacted_standards ?s1)
              then [Completion srs_system (combined_input_of technical_input (user_request ?s1))]
              else [])
           @ (if list_ex (py_in ''14971'') (impacted_standards ?s1)
              then [Completion rmf_system (combined_input_of technical_input (user_request ?s1))]
              else [])"
    by (elim exE conjE)
  let ?calls = "(if list_ex (py_in ''62304'') (impacted_standards ?s1)
              then [Completion srs_system (combined_input_of technical_input (user_request ?s1))]
              else [])
           @ (if list_ex (py_in ''14971'') (impacted_standards ?s1)
              then [Completion rmf_system (combined_input_of technical_input (user_request ?s1))]
              else [])"
  from auditor_trace [of e ?s2 w2] n3 obtain message where
    t3: "trace w3 = trace w2 @ [ChatRun [''Compliance_Manager'', ''IEC62304_Auditor'',
           ''ISO14971_Auditor'', ''ISO13485_Auditor''] 4 message]"
    by simp
  from compiler_trace [of e ?s3 w3] n4 have t4: "trace w4 = trace w3" by simp
  have shape: "trace (snd (app_invoke e s w)) =
             trace w @ Completion planner_system (user_request s) # FileOpen spec_file_path
               # ?calls
               @ [ChatRun [''Compliance_Manager'', ''IEC62304_Auditor'', ''ISO14971_Auditor'',
                           ''ISO13485_Auditor''] 4 message]"
    by (simp only: final_world t4 t3 t2 t1 append_assoc append_Cons append_Nil)
  have kinds: "\<forall>c \<in> set ?calls. \<exists>r. c = Completion srs_system r \<or> c = Completion rmf_system r"
    by auto
  from shape kinds show ?thesis by (intro exI conjI)
qed

lemma system_prompts_differ:
  "planner_system \<noteq> srs_system" "planner_system \<noteq> rmf_system" "srs_system \<noteq> rmf_system"
  by (simp_all add: planner_system_def srs_system_def rmf_system_def)

text \<open>
  C9, as stated, fails: a line of three spaces is neither empty nor a termination command,
  yet it starts no pipeline run; the loop only prompts again.
\<close>

theorem blank_line_starts_no_run:
  "''   '' \<noteq> ''''
   \<and> py_lower ''   '' \<notin> set [''quit'', ''exit'']
   \<and> main_loop (sample_env no_summary) [''   '', ''quit''] w0 =
       (Finished,
        \<lparr>stdout = [Prompt prompt_text, Prompt prompt_text, Print ''Exiting Compliance System.''],
         trace = []\<rparr>)"
  by (simp add: py_lower_def py_lower_char_def py_strip_def py_isspace_def print_def w0_def)

text \<open>
  C9, amended: the loop decides on the line with its leading and trailing whitespace
  removed. If that text is "quit" or "exit" in any letter case the loop prints the exit
  message and ends, with the same status for both. If it is empty the loop prompts again,
  printing nothing and calling nothing. Otherwise the loop starts exactly one pipeline run
  on that text: when the run completes (one planner call, one file read, the document
  generations and one audit conversation) its final report is printed between the two
  banners and the loop goes on; when a node raises, the exception ends the process.
\<close>

theorem cli_step:
  "(py_lower (py_strip line) \<in> set [''quit'', ''exit'']
      \<longrightarrow> main_loop e (line # rest) w =
            (Finished,
             w\<lparr>stdout := stdout w @ [Prompt prompt_text, Print ''Exiting Compliance System.'']\<rparr>))
   \<and> (py_strip line = []
      \<longrightarrow> main_loop e (line # rest) w =
            main_loop e rest (w\<lparr>stdout := stdout w @ [Prompt prompt_text]\<rparr>))
   \<and> (py_strip line \<noteq> [] \<and> py_lower (py_strip line) \<notin> set [''quit'', ''exit'']
      \<longrightarrow> (\<forall>run. run = app_invoke e (initial_state (py_strip line))
                          (w\<lparr>stdout := stdout w @
                               [Prompt prompt_text,
                                Print (''\<newline>Starting Compliance System with input: '' @ [CHR 0x27]
                                         @ py_strip line @ [CHR 0x27] @ ''\<newline>'')]\<rparr>)
            \<longrightarrow> (\<forall>err. fst run = Inl err
                    \<longrightarrow> main_loop e (line # rest) w = (Uncaught err, snd run))
                \<and> (\<forall>final_state. fst run = Inr final_state
                    \<longrightarrow> main_loop e (line # rest) w =
                          main_loop e rest
                            ((snd run)\<lparr>stdout := stdout (snd run) @
                               [Print ''\<newline>\<newline>================ GENERATED FINAL REPORT ================\<newline>'',
                                Print (final_report_content final_state),
                                Print ''========================================================\<newline>'']\<rparr>)
                        \<and> user_request final_state = py_strip line
                        \<and> (\<exists>calls message.
                              trace (snd run) =
                                trace w @ Completion planner_system (py_strip line)
                                  # FileOpen spec_file_path # calls
                                  @ [ChatRun [''Compliance_Manager'', ''IEC62304_Auditor'',
                                              ''ISO14971_Auditor'', ''ISO13485_Auditor''] 4 message]
                              \<and> (\<forall>c \<in> set calls.
                                    \<exists>r. c = Completion srs_system r \<or> c = Completion rmf_system r)))))"
proof (intro conjI impI allI)
  assume "py_lower (py_strip line) \<in> set [''quit'', ''exit'']"
  then show "main_loop e (line # rest) w =
            (Finished,
             w\<lparr>stdout := stdout w @ [Prompt prompt_text, Print ''Exiting Compliance System.'']\<rparr>)"
    by (simp add: Let_def print_def)
next
  assume "py_strip line = []"
  then show "main_loop e (line # rest) w =
            main_loop e rest (w\<lparr>stdout := stdout w @ [Prompt prompt_text]\<rparr>)"
    by (simp add: Let_def py_lower_def)
next
  fix run err
  assume other: "py_strip line \<noteq> [] \<and> py_lower (py_strip line) \<notin> set [''quit'', ''exit'']"
    and run: "run = app_invoke e (initial_state (py_strip line))
                          (w\<lparr>stdout := stdout w @
                               [Prompt prompt_text,
                                Print (''\<newline>Starting Compliance System with input: '' @ [CHR 0x27]
                                         @ py_strip line @ [CHR 0x27] @ ''\<newline>'')]\<rparr>)"
    and failed: "fst run = Inl err"
  from failed obtain w2 where "run = (Inl err, w2)" by (cases run) simp
  with other run [symmetric] show "main_loop e (line # rest) w = (Uncaught err, snd run)"
    by (simp add: Let_def print_def)
next
  fix run final_state
  assume other: "py_strip line \<noteq> [] \<and> py_lower (py_strip line) \<notin> set [''quit'', ''exit'']"
    and run: "run = app_invoke e (initial_state (py_strip line))
                          (w\<lparr>stdout := stdout w @
                               [Prompt prompt_text,
                                Print (''\<newline>Starting Compliance System with input: '' @ [CHR 0x27]
                                         @ py_strip line @ [CHR 0x27] @ ''\<newline>'')]\<rparr>)"
    and ended: "fst run = Inr final_state"
  from ended obtain w2 where "run = (Inr final_state, w2)" by (cases run) simp
  with other run [symmetric] show "main_loop e (line # rest) w =
                          main_loop e rest
                            ((snd run)\<lparr>stdout := stdout (snd run) @
                               [Print ''\<newline>\<newline>================ GENERATED FINAL REPORT ================\<newline>'',
                                Print (final_report_content final_state),
                                Print ''========================================================\<newline>'']\<rparr>)"
    by (simp add: Let_def print_def)
  from ended run have "user_request final_state = user_request (initial_state (py_strip line))"
    unfolding app_invoke_def by (simp add: run_from_keeps_request)
  then show "user_request final_state = py_strip line" by (simp add: initial_state_def)
  from ended run
  have ok: "fst (app_invoke e (initial_state (py_strip line))
                          (w\<lparr>stdout := stdout w @
                               [Prompt prompt_text,
                                Print (''\<newline>Starting Compliance System with input: '' @ [CHR 0x27]
                                         @ py_strip line @ [CHR 0x27] @ ''\<newline>'')]\<rparr>)) = Inr final_state"
    by simp
  from app_invoke_calls [OF ok] obtain calls message where
    shape: "trace (snd run) =
       trace (w\<lparr>stdout := stdout w @
                               [Prompt prompt_text,
                                Print (''\<newline>Starting Compliance System with input: '' @ [CHR 0x27]
                                         @ py_strip line @ [CHR 0x27] @ ''\<newline>'')]\<rparr>)
         @ Completion planner_system (user_request (initial_state (py_strip line)))
         # FileOpen spec_file_path # calls
         @ [ChatRun [''Compliance_Manager'', ''IEC62304_Auditor'',
                     ''ISO14971_Auditor'', ''ISO13485_Auditor''] 4 message]"
    and kinds: "\<forall>c \<in> set calls. \<exists>r. c = Completion srs_system r \<or> c = Completion rmf_system r"
    unfolding run by (elim exE conjE)
  have req: "user_request (initial_state (py_strip line)) = py_strip line"
    by (simp add: initial_state_def)
  from shape have "trace (snd run) =
            trace w @ Completion planner_system (py_strip line)
              # FileOpen spec_file_path # calls
              @ [ChatRun [''Compliance_Manager'', ''IEC62304_Auditor'',
                          ''ISO14971_Auditor'', ''ISO13485_Auditor''] 4 message]"
    unfolding req by simp
  with kinds
  show "\<exists>calls message.
          trace (snd run) =
            trace w @ Completion planner_system (py_strip line)
              # FileOpen spec_file_path # calls
              @ [ChatRun [''Compliance_Manager'', ''IEC62304_Auditor'',
                          ''ISO14971_Auditor'', ''ISO13485_Auditor''] 4 message]
          \<and> (\<forall>c \<in> set calls.
                \<exists>r. c = Completion srs_system r \<or> c = Completion rmf_system r)"
    by (intro exI conjI)
qed

lemma sample_run:
  \<open>\<exists>final_state. fst (app_invoke (sample_env two_summaries) (initial_state ''Add Bluetooth module'')
          (w0\<lparr>stdout := stdout w0 @
                   [Prompt prompt_text,
                    Print (''\<newline>Starting Compliance System with input: '' @ [CHR 0x27]
                             @ ''Add Bluetooth module'' @ [CHR 0x27] @ ''\<newline>'')]\<rparr>)) = Inr final_state\<close>
  by (simp add: app_invoke_unfold orchestrator_planner_node_def loader_defs
        autogen_auditor_node_def report_compiler_node_def sample_env_def initial_state_def
        apply_update_def no_update_def finding_of_def details_of_def
        py_strip_def py_isspace_def)

theorem cli_step_witness:
  "py_strip ''  Add Bluetooth module '' = ''Add Bluetooth module''
   \<and> py_lower ''Add Bluetooth module'' \<notin> set [''quit'', ''exit'']
   \<and> fst (main_loop (sample_env two_summaries) [''  Add Bluetooth module '', ''quit''] w0) = Finished"
proof -
  have stripped: "py_strip ''  Add Bluetooth module '' = ''Add Bluetooth module''"
    by (simp add: py_strip_def py_isspace_def)
  have other: "py_lower ''Add Bluetooth module'' \<notin> set [''quit'', ''exit'']"
    by (simp add: py_lower_def py_lower_char_def)
  have quit: "py_lower (py_strip ''quit'') \<in> set [''quit'', ''exit'']"
    by (simp add: py_lower_def py_lower_char_def py_strip_def py_isspace_def)
  from sample_run obtain final_state where
    ran: "fst (app_invoke (sample_env two_summaries) (initial_state ''Add Bluetooth module'')
          (w0\<lparr>stdout := stdout w0 @
                   [Prompt prompt_text,
                    Print (''\<newline>Starting Compliance System with input: '' @ [CHR 0x27]
                             @ ''Add Bluetooth module'' @ [CHR 0x27] @ ''\<newline>'')]\<rparr>)) = Inr final_state"
    by (elim exE)
  note step = cli_step [of "''  Add Bluetooth module ''" "sample_env two_summaries" "[''quit'']" w0,
                        unfolded stripped]
  from step [THEN conjunct2, THEN conjunct2] other
  have "\<forall>run. run = app_invoke (sample_env two_summaries) (initial_state ''Add Bluetooth module'')
          (w0\<lparr>stdout := stdout w0 @
                   [Prompt prompt_text,
                    Print (''\<newline>Starting Compliance System with input: '' @ [CHR 0x27]
                             @ ''Add Bluetooth module'' @ [CHR 0x27] @ ''\<newline>'')]\<rparr>)
        \<longrightarrow> (\<forall>err. fst run = Inl err
                    \<longrightarrow> main_loop (sample_env two_summaries) [''  Add Bluetooth module '', ''quit''] w0
                          = (Uncaught err, snd run))
                \<and> (\<forall>final_state. fst run = Inr final_state
                    \<longrightarrow> main_loop (sample_env two_summaries) [''  Add Bluetooth module '', ''quit''] w0 =
                          main_loop (sample_env two_summaries) [''quit'']
                            ((snd run)\<lparr>stdout := stdout (snd run) @
                               [Print ''\<newline>\<newline>================ GENERATED FINAL REPORT ================\<newline>'',
                                Print (final_report_content final_state),
                                Print ''========================================================\<newline>'']\<rparr>)
                        \<and> user_request final_state = ''Add Bluetooth module''
                        \<and> (\<exists>calls message.
                              trace (snd run) =
                                trace w0 @ Completion planner_system ''Add Bluetooth module''
                                  # FileOpen spec_file_path # calls
                                  @ [ChatRun [''Compliance_Manager'', ''IEC62304_Auditor'',
                                              ''ISO14971_Auditor'', ''ISO13485_Auditor''] 4 message]
                              \<and> (\<forall>c \<in> set calls.
                                    \<exists>r. c = Completion srs_system r \<or> c = Completion rmf_system r)))"
    by simp
  with ran obtain w2 where
    "main_loop (sample_env two_summaries) [''  Add Bluetooth module '', ''quit''] w0 =
       main_loop (sample_env two_summaries) [''quit''] w2"
    by blast
  moreover from cli_step [of "''quit''" "sample_env two_summaries" "[]" w2, THEN conjunct1] quit
  have "fst (main_loop (sample_env two_summaries) [''quit''] w2) = Finished" by simp
  ultimately show ?thesis using stripped other by simp
qed

text \<open>
  C10: the loop strips leading and trailing whitespace from every line before any check:
  it behaves on a line as on the stripped line. A line of whitespace only is therefore
  treated as empty (the loop prompts again, printing and calling nothing else), and the
  padded command "  QUIT  " ends the process like any line whose stripped text is "quit" or
  "exit" in some letter case.
\<close>

theorem cli_strips_before_checking:
  "main_loop e (line # rest) w = main_loop e (py_strip line # rest) w
   \<and> ((\<forall>c \<in> set line. py_isspace c)
        \<longrightarrow> main_loop e (line # rest) w =
              main_loop e rest (w\<lparr>stdout := stdout w @ [Prompt prompt_text]\<rparr>))
   \<and> main_loop e (''  QUIT  '' # rest) w =
        (Finished,
         w\<lparr>stdout := stdout w @ [Prompt prompt_text, Print ''Exiting Compliance System.'']\<rparr>)
   \<and> (py_lower (py_strip line) \<in> set [''quit'', ''exit'']
        \<longrightarrow> main_loop e (line # rest) w =
              (Finished,
               w\<lparr>stdout := stdout w @ [Prompt prompt_text, Print ''Exiting Compliance System.'']\<rparr>))"
proof (intro conjI impI)
  show "main_loop e (line # rest) w = main_loop e (py_strip line # rest) w"
    by (simp only: main_loop.simps py_strip_idem)
next
  assume "\<forall>c \<in> set line. py_isspace c"
  then have "py_strip line = []" by (rule py_strip_blank)
  then show "main_loop e (line # rest) w =
              main_loop e rest (w\<lparr>stdout := stdout w @ [Prompt prompt_text]\<rparr>)"
    by (simp add: Let_def py_lower_def)
next
  have "py_lower (py_strip ''  QUIT  '') = ''quit''"
    by (simp add: py_lower_def py_lower_char_def py_strip_def py_isspace_def char_of_eq_iff)
  then show "main_loop e (''  QUIT  '' # rest) w =
        (Finished,
         w\<lparr>stdout := stdout w @ [Prompt prompt_text, Print ''Exiting Compliance System.'']\<rparr>)"
    by (simp add: Let_def print_def)
next
  assume "py_lower (py_strip line) \<in> set [''quit'', ''exit'']"
  then show "main_loop e (line # rest) w =
              (Finished,
               w\<lparr>stdout := stdout w @ [Prompt prompt_text, Print ''Exiting Compliance System.'']\<rparr>)"
    by (simp add: Let_def print_def)
qed

theorem cli_strips_before_checking_witness:
  "list_all py_isspace [CHR '' '', CHR 0x09, CHR '' '']
   \<and> main_loop (sample_env no_summary) [[CHR '' '', CHR 0x09, CHR '' ''], ''  QUIT  ''] w0 =
       (Finished,
        \<lparr>stdout = [Prompt prompt_text, Prompt prompt_text, Print ''Exiting Compliance System.''],
         trace = []\<rparr>)"
proof -
  have blank: "\<forall>c \<in> set [CHR '' '', CHR 0x09, CHR '' '']. py_isspace c"
    by (simp add: py_isspace_def)
  note strips = cli_strips_before_checking
                  [of "sample_env no_summary" "[CHR '' '', CHR 0x09, CHR '' '']" "[''  QUIT  '']" w0]
  from strips [THEN conjunct2, THEN conjunct1] blank
  have "main_loop (sample_env no_summary) [[CHR '' '', CHR 0x09, CHR '' ''], ''  QUIT  ''] w0 =
          main_loop (sample_env no_summary) [''  QUIT  '']
            (w0\<lparr>stdout := stdout w0 @ [Prompt prompt_text]\<rparr>)"
    by (rule mp)
  also have "\<dots> = (Finished,
        \<lparr>stdout = [Prompt prompt_text, Prompt prompt_text, Print ''Exiting Compliance System.''],
         trace = []\<rparr>)"
    by (simp add: py_lower_def py_lower_char_def py_strip_def py_isspace_def print_def w0_def
          char_of_eq_iff)
  finally show ?thesis using blank by (simp add: list_all_iff)
qed

end
